theory Spec2Isabelle
  imports Complex_Main
begin

section \<open>Python values, exceptions and printed text\<close>

text \<open>
  The program is one Python script, \<^verbatim>\<open>check_linux_metrics.py\<close>. Each probe function reads
  pseudo-files of the kernel, prints one line and ends the process with \<^verbatim>\<open>sys.exit\<close>.
  An exception that nothing catches ends the process too, with a traceback instead of the
  status line. Both endings are values of \<open>outcome\<close>.

  Python floats are modelled by exact rationals: the rounding of IEEE doubles and the
  rendering of \<^verbatim>\<open>:.2f\<close> are outside the model, so a formatted number is kept as the
  fragment \<open>F2 x\<close> of the printed text, not as its digits.
\<close>

datatype exn = ZeroDivisionError | ValueError | IndexError | KeyError | UnboundLocalError

type_synonym 'a res = "exn + 'a"

definition rbind :: "'a res \<Rightarrow> ('a \<Rightarrow> 'b res) \<Rightarrow> 'b res" where
  "rbind m f = (case m of Inl e \<Rightarrow> Inl e | Inr x \<Rightarrow> f x)"

datatype frag =
    S string          \<comment> \<open>literal text, or a string printed as it is\<close>
  | F2 rat            \<comment> \<open>a number printed with \<^verbatim>\<open>:.2f\<close>\<close>
  | D int             \<comment> \<open>an integer printed with \<^verbatim>\<open>{}\<close>\<close>
  | L "string list"   \<comment> \<open>a list of strings printed with \<^verbatim>\<open>{}\<close>\<close>

type_synonym line = "frag list"

datatype outcome =
    Exit nat "line list"   \<comment> \<open>\<^verbatim>\<open>sys.exit(code)\<close> after the lines printed on standard output\<close>
  | Uncaught exn           \<comment> \<open>an exception reached the top level: traceback, no status line\<close>

text \<open>The interpreter ends with status 1 after an uncaught exception.\<close>

fun exit_code :: "outcome \<Rightarrow> nat" where
  "exit_code (Exit c ls) = c"
| "exit_code (Uncaught e) = 1"

text \<open>\<^verbatim>\<open>print(f"{status_outp} | {perfdata}")\<close>\<close>

definition status_line :: "line \<Rightarrow> line \<Rightarrow> line" where
  "status_line status_outp perfdata = status_outp @ [S '' | ''] @ perfdata"

text \<open>
  \<^verbatim>\<open>perfdata.strip()\<close>: every probe builds \<open>perfdata\<close> from tokens that start with a metric
  name and end with one blank, so stripping removes the final blank.
\<close>

definition strip :: "line \<Rightarrow> line" where
  "strip t = (if t \<noteq> [] \<and> last t = S '' '' then butlast t else t)"

subsection \<open>\<^verbatim>\<open>float(s)\<close>, \<^verbatim>\<open>int(s)\<close> and \<^verbatim>\<open>int(x)\<close>\<close>

text \<open>
  The thresholds arrive as command-line strings and are converted where they are used.
  The model reads signed decimal literals (\<^verbatim>\<open>5\<close>, \<^verbatim>\<open>-5.25\<close>, \<^verbatim>\<open>.5\<close>, \<^verbatim>\<open>5.\<close>); any other string
  raises \<open>ValueError\<close>. Exponents, \<^verbatim>\<open>inf\<close>, \<^verbatim>\<open>nan\<close>, underscores and surrounding blanks, which
  Python also reads, are not modelled.
\<close>

definition digit_val :: "char \<Rightarrow> nat option" where
  "digit_val c =
     (let n = (of_char c :: nat)
      in if 48 \<le> n \<and> n \<le> 57 then Some (n - 48) else None)"

fun digits_val :: "nat \<Rightarrow> string \<Rightarrow> nat option" where
  "digits_val acc [] = Some acc"
| "digits_val acc (c # cs) =
     (case digit_val c of None \<Rightarrow> None | Some d \<Rightarrow> digits_val (10 * acc + d) cs)"

definition unsigned_part :: "string \<Rightarrow> bool \<times> string" where
  "unsigned_part s =
     (case s of
        [] \<Rightarrow> (False, [])
      | c # cs \<Rightarrow> if c = CHR ''-'' then (True, cs)
                 else if c = CHR ''+'' then (False, cs) else (False, s))"

definition py_int :: "string \<Rightarrow> int res" where
  "py_int s =
     (let (neg, body) = unsigned_part s in
      if body = [] then Inl ValueError
      else case digits_val 0 body of
             None \<Rightarrow> Inl ValueError
           | Some n \<Rightarrow> Inr (if neg then - int n else int n))"

definition py_float :: "string \<Rightarrow> rat res" where
  "py_float s =
     (let (neg, body) = unsigned_part s;
          ip = takeWhile (\<lambda>c. c \<noteq> CHR ''.'') body;
          fp = drop 1 (dropWhile (\<lambda>c. c \<noteq> CHR ''.'') body)
      in if ip = [] \<and> fp = [] then Inl ValueError
         else case (digits_val 0 ip, digits_val 0 fp) of
                (Some i, Some f) \<Rightarrow>
                  (let v = of_nat i + of_nat f / 10 ^ length fp
                   in Inr (if neg then - v else v))
              | _ \<Rightarrow> Inl ValueError)"

text \<open>\<^verbatim>\<open>int(x)\<close> of a float rounds towards zero.\<close>

definition py_trunc :: "rat \<Rightarrow> int" where
  "py_trunc x = (if 0 \<le> x then \<lfloor>x\<rfloor> else \<lceil>x\<rceil>)"

text \<open>\<^verbatim>\<open>xs[i]\<close> with a non-negative index.\<close>

definition idx :: "'a list \<Rightarrow> nat \<Rightarrow> 'a res" where
  "idx xs i = (if i < length xs then Inr (xs ! i) else Inl IndexError)"

text \<open>\<^verbatim>\<open>d[k]\<close> on a dictionary.\<close>

definition key :: "('k \<rightharpoonup> 'v) \<Rightarrow> 'k \<Rightarrow> 'v res" where
  "key d k = (case d k of None \<Rightarrow> Inl KeyError | Some v \<Rightarrow> Inr v)"

section \<open>The operating system as the probes see it\<close>

text \<open>
  The pseudo-files are taken as the Counter Reader delivers them, already split into
  fields: a counter file is the list of its lines, each line its label and the integer
  fields after it. One invocation sees one state of the system.
\<close>

type_synonym pfile = "(string \<times> int list) list"

record sys =
  clock :: rat                                  \<comment> \<open>\<^verbatim>\<open>time.time()\<close>\<close>
  interim :: "string \<rightharpoonup> rat \<times> pfile"           \<comment> \<open>files of \<^verbatim>\<open>INTERIM_DIR\<close>: modification time, content\<close>
  proc_stat :: pfile                            \<comment> \<open>\<^verbatim>\<open>/proc/stat\<close>\<close>
  proc_loadavg :: "rat list \<times> int list"       \<comment> \<open>\<^verbatim>\<open>/proc/loadavg\<close>: the averages; the field \<^verbatim>\<open>running/total\<close>\<close>
  file_nr :: "int list"                         \<comment> \<open>\<^verbatim>\<open>/proc/sys/fs/file-nr\<close>\<close>
  proc_dirs :: "(string \<times> string list option) list"
    \<comment> \<open>\<^verbatim>\<open>os.listdir('/proc')\<close>: entry, and the fields of its \<^verbatim>\<open>stat\<close> file when it can be read\<close>
  diskstats :: pfile                            \<comment> \<open>\<^verbatim>\<open>/proc/diskstats\<close>: device, the counters after it\<close>
  realpath :: "string \<Rightarrow> string"               \<comment> \<open>\<^verbatim>\<open>os.path.realpath\<close>\<close>
  statvfs :: "string \<rightharpoonup> int \<times> int \<times> int \<times> int"
    \<comment> \<open>mount points: \<^verbatim>\<open>f_frsize\<close>, \<^verbatim>\<open>f_blocks\<close>, \<^verbatim>\<open>f_bfree\<close>, \<^verbatim>\<open>f_bavail\<close>\<close>
  meminfo :: "string \<rightharpoonup> int"                   \<comment> \<open>\<^verbatim>\<open>/proc/meminfo\<close>: label, value in kB\<close>
  net_dev :: pfile                              \<comment> \<open>\<^verbatim>\<open>/proc/net/dev\<close>: interface, the counters after it\<close>

text \<open>A host used to run the probes on concrete readings.\<close>

definition demo_host :: sys where
  "demo_host =
     \<lparr>clock = 1000,
      interim = Map.empty,
      proc_stat = [(''cpu'', [150, 0, 70, 870, 0, 0, 0, 0]), (''processes'', [5000])],
      proc_loadavg = ([1 / 2, 1 / 4, 1 / 10], [2, 300]),
      file_nr = [1024, 0, 100000],
      proc_dirs = [(''1'', Some [''1'', ''(init)'', ''S'']), (''self'', None),
                   (''42'', Some [''42'', ''(sh)'', ''R'']), (''77'', None)],
      diskstats = [(''sda'', [100, 0, 800, 10, 50, 0, 400, 5])],
      realpath = (\<lambda>p. p),
      statvfs = [''/'' \<mapsto> (4096, 26214400, 6553600, 5242880)],
      meminfo = [''MemTotal'' \<mapsto> 2048000, ''MemFree'' \<mapsto> 716800, ''Buffers'' \<mapsto> 102400,
                 ''Cached'' \<mapsto> 204800, ''Active'' \<mapsto> 512000, ''SwapTotal'' \<mapsto> 1024000,
                 ''SwapFree'' \<mapsto> 512000, ''SwapCached'' \<mapsto> 0],
      net_dev = [(''eth0'', [2097152, 100, 0, 0, 0, 0, 0, 0, 1048576, 50, 0, 0, 0, 0, 0, 0])]\<rparr>"

text \<open>What an invocation leaves behind: how it ended, and the interim directory.\<close>

type_synonym run = "outcome \<times> (string \<rightharpoonup> rat \<times> pfile)"

section \<open>Probes without a previous sample\<close>

subsection \<open>\<^verbatim>\<open>check_swap\<close>\<close>

text \<open>
  The scalar classification, written in every scalar probe as
  \<^verbatim>\<open>if v >= float(crit): ... elif v >= float(warn): ... else: ...\<close>.
  It gives the status code and the annotation appended to the status text. \<open>crit\<close> is
  converted first, and \<open>warn\<close> only when the critical bound is not reached.
\<close>

definition classify_scalar :: "(string \<Rightarrow> rat res) \<Rightarrow> rat \<Rightarrow> string \<Rightarrow> string \<Rightarrow> (nat \<times> line) res" where
  "classify_scalar conv v warn crit =
     rbind (conv crit) (\<lambda>c.
       if v \<ge> c then Inr (2, [S '' (Critical)''])
       else rbind (conv warn) (\<lambda>w.
         if v \<ge> w then Inr (1, [S '' (Warning)''])
         else Inr (0, [S '' (OK)''])))"

text \<open>The token of \<open>used\<close> in the performance data of \<^verbatim>\<open>check_memory\<close> and \<^verbatim>\<open>check_swap\<close>.\<close>

definition used_perfdata :: "rat \<Rightarrow> rat \<Rightarrow> (string \<times> string) option \<Rightarrow> line res" where
  "used_perfdata used tot wc =
     rbind (case wc of
              Some (warn, crit) \<Rightarrow>
                rbind (py_float warn) (\<lambda>w.
                rbind (py_float crit) (\<lambda>c.
                  Inr [S '';'', D (py_trunc (tot * w / 100)),
                       S '';'', D (py_trunc (tot * c / 100))]))
            | None \<Rightarrow> Inr [S '';;'']) (\<lambda>th.
       Inr ([S ''used'', S ''='', F2 used] @ th @ [S '';0;'', D (py_trunc tot), S '' '']))"

definition thresholds :: "string option \<Rightarrow> string option \<Rightarrow> (string \<times> string) option" where
  "thresholds warn crit =
     (case (warn, crit) of (Some w, Some c) \<Rightarrow> Some (w, c) | _ \<Rightarrow> None)"

definition check_swap :: "sys \<Rightarrow> string option \<Rightarrow> string option \<Rightarrow> outcome" where
  "check_swap s warn crit =
     (case
        rbind (key (meminfo s) ''SwapTotal'') (\<lambda>tot.
          if tot = 0 then
            Inr (Exit 0 [status_line [S ''No swap space configured on this system''] []])
          else
            rbind (key (meminfo s) ''SwapCached'') (\<lambda>cached.
            rbind (key (meminfo s) ''SwapFree'') (\<lambda>free.
              let s_total = of_int tot / 1024;
                  s_cached = of_int cached / 1024;
                  s_used = of_int (tot - free - cached) / 1024;
                  s_used_p = of_int (tot - free - cached) / of_int tot * 100;
                  status_outp = [S ''Swap Used: '', F2 s_used, S ''MB / '', F2 s_total,
                                 S ''MB ('', F2 s_used_p, S ''%)'']
              in
              rbind (case thresholds warn crit of
                       Some (w, c) \<Rightarrow> classify_scalar py_float s_used_p w c
                     | None \<Rightarrow> Inr (0, [])) (\<lambda>(status_code, note).
              rbind (used_perfdata s_used s_total (thresholds warn crit)) (\<lambda>used_tok.
                Inr (Exit status_code
                       [status_line (status_outp @ note)
                          (strip (used_tok @ [S ''cached'', S ''='', F2 s_cached, S '' '']))]))))))
      of Inl e \<Rightarrow> Uncaught e | Inr out \<Rightarrow> out)"

subsection \<open>\<^verbatim>\<open>check_memory\<close>\<close>

definition check_memory :: "sys \<Rightarrow> string option \<Rightarrow> string option \<Rightarrow> outcome" where
  "check_memory s warn crit =
     (case
        rbind (key (meminfo s) ''MemTotal'') (\<lambda>tot.
        rbind (key (meminfo s) ''Active'') (\<lambda>active.
        rbind (key (meminfo s) ''Cached'') (\<lambda>cached.
        rbind (key (meminfo s) ''Buffers'') (\<lambda>buffers.
        rbind (key (meminfo s) ''MemFree'') (\<lambda>free.
          if tot = 0 then Inl ZeroDivisionError
          else
            let m_total = of_int tot / 1024;
                m_active = of_int active / 1024;
                m_cached = of_int (cached + buffers) / 1024;
                m_used = of_int (tot - free - cached - buffers) / 1024;
                m_used_p = of_int (tot - free - cached - buffers) / of_int tot * 100;
                status_outp = [S ''Memory Used: '', F2 m_used, S ''MB / '', F2 m_total,
                               S ''MB ('', F2 m_used_p, S ''%)'']
            in
            rbind (case thresholds warn crit of
                     Some (w, c) \<Rightarrow> classify_scalar py_float m_used_p w c
                   | None \<Rightarrow> Inr (0, [])) (\<lambda>(status_code, note).
            rbind (used_perfdata m_used m_total (thresholds warn crit)) (\<lambda>used_tok.
              Inr (Exit status_code
                     [status_line (status_outp @ note)
                        (strip (used_tok @ [S ''cached'', S ''='', F2 m_cached, S '' '',
                                            S ''active'', S ''='', F2 m_active, S '' '']))]))))))))
      of Inl e \<Rightarrow> Uncaught e | Inr out \<Rightarrow> out)"

text \<open>
  The severity of one value against one pair of bounds, in the words of the specification:
  \<open>value \<ge> crit\<close> is CRITICAL (2), else \<open>value \<ge> warn\<close> is WARNING (1), else OK (0).
\<close>

definition severity :: "rat \<Rightarrow> rat \<Rightarrow> rat \<Rightarrow> nat" where
  "severity v w c = (if v \<ge> c then 2 else if v \<ge> w then 1 else 0)"

definition severity_note :: "nat \<Rightarrow> string" where
  "severity_note c = (if c = 2 then '' (Critical)'' else if c = 1 then '' (Warning)'' else '' (OK)'')"

section \<open>Probes that compare with a persisted sample\<close>

text \<open>\<^verbatim>\<open>shutil.copyfile(src, interim_file)\<close>: the file holds the current content of the source.\<close>

definition copyfile :: "sys \<Rightarrow> pfile \<Rightarrow> string \<Rightarrow> (string \<rightharpoonup> rat \<times> pfile)" where
  "copyfile s src name = (interim s)(name \<mapsto> (clock s, src))"

text \<open>\<^verbatim>\<open>f.readline().split()[1:]\<close>: the fields of the first line, without its label.\<close>

definition first_fields :: "pfile \<Rightarrow> int list" where
  "first_fields f = (case f of [] \<Rightarrow> [] | (label, nums) # rest \<Rightarrow> nums)"

text \<open>A probe that got as far as its status line writes the new sample and prints.\<close>

definition finish :: "sys \<Rightarrow> pfile \<Rightarrow> string \<Rightarrow> (nat \<times> line) res \<Rightarrow> run" where
  "finish s src name r =
     (case r of
        Inl e \<Rightarrow> (Uncaught e, interim s)
      | Inr (status_code, out) \<Rightarrow> (Exit status_code [out], copyfile s src name))"

subsection \<open>\<^verbatim>\<open>check_cpu\<close>\<close>

definition cpu_deltas :: "pfile \<Rightarrow> pfile \<Rightarrow> int list" where
  "cpu_deltas old new = map (\<lambda>(a, b). b - a) (zip (first_fields old) (first_fields new))"

text \<open>
  \<^verbatim>\<open>[100 - (100 * (float(total - x) / total)) for x in deltas]\<close>: the division raises for
  the first element when \<open>total\<close> is zero.
\<close>

definition cpu_percents :: "int list \<Rightarrow> rat list res" where
  "cpu_percents deltas =
     (let tot = sum_list deltas in
      if deltas \<noteq> [] \<and> tot = 0 then Inl ZeroDivisionError
      else Inr (map (\<lambda>x. 100 - (100 * (of_int (tot - x) / of_int tot))) deltas))"

text \<open>
  The dictionary \<^verbatim>\<open>cpu_pcts\<close>: seven fields by position (a shorter line raises), \<open>steal\<close>
  when the kernel reports it, and the busy value \<open>cpu\<close>.
\<close>

definition cpu_pcts :: "pfile \<Rightarrow> pfile \<Rightarrow> (string \<rightharpoonup> rat) res" where
  "cpu_pcts old new =
     rbind (cpu_percents (cpu_deltas old new)) (\<lambda>percents.
     rbind (idx percents 0) (\<lambda>user.
     rbind (idx percents 1) (\<lambda>nice.
     rbind (idx percents 2) (\<lambda>system.
     rbind (idx percents 3) (\<lambda>idle.
     rbind (idx percents 4) (\<lambda>iowait.
     rbind (idx percents 5) (\<lambda>irq.
     rbind (idx percents 6) (\<lambda>softirq.
       let d = [''user'' \<mapsto> user, ''nice'' \<mapsto> nice, ''system'' \<mapsto> system, ''idle'' \<mapsto> idle,
                ''iowait'' \<mapsto> iowait, ''irq'' \<mapsto> irq, ''softirq'' \<mapsto> softirq];
           d = d(''steal'' \<mapsto> (if length percents \<ge> 8 then percents ! 7 else 0))
       in Inr (d(''cpu'' \<mapsto> 100 - idle))))))))))"

text \<open>\<^verbatim>\<open>for x in names: perfdata += token(x, d[x])\<close>\<close>

fun perf_loop :: "(string \<Rightarrow> 'v \<Rightarrow> line) \<Rightarrow> (string \<rightharpoonup> 'v) \<Rightarrow> string list \<Rightarrow> line res" where
  "perf_loop tok d [] = Inr []"
| "perf_loop tok d (x # xs) =
     rbind (key d x) (\<lambda>v. rbind (perf_loop tok d xs) (\<lambda>r. Inr (tok x v @ r)))"

definition pct_token :: "(string \<times> string) option \<Rightarrow> string \<Rightarrow> rat \<Rightarrow> line" where
  "pct_token wc x v =
     [S x, S ''='', F2 v, S ''%'']
     @ (case wc of Some (w, c) \<Rightarrow> [S '';'', S w, S '';'', S c] | None \<Rightarrow> [])
     @ [S '' '']"

definition check_cpu :: "sys \<Rightarrow> string option \<Rightarrow> string option \<Rightarrow> run" where
  "check_cpu s warn crit =
     (case interim s ''proc_stat'' of
        None \<Rightarrow>
          (Exit 0 [[S ''This was the first run, run again to get values'']],
           copyfile s (proc_stat s) ''proc_stat'')
      | Some (mtime, old) \<Rightarrow>
          let sample_period = clock s - mtime in
          finish s (proc_stat s) ''proc_stat''
            (rbind (cpu_pcts old (proc_stat s)) (\<lambda>d.
             rbind (key d ''cpu'') (\<lambda>cpu.
               let status_outp = [S ''CPU Usage: '', F2 cpu, S ''% [t:'', F2 sample_period, S '']'']
               in
               rbind (case thresholds warn crit of
                        Some (w, c) \<Rightarrow> classify_scalar py_float cpu w c
                      | None \<Rightarrow> Inr (0, [])) (\<lambda>(status_code, note).
               rbind (perf_loop (pct_token (thresholds warn crit)) d
                        [''cpu'', ''user'', ''system'', ''iowait'', ''nice'', ''irq'', ''softirq'',
                         ''steal'']) (\<lambda>perfdata.
                 Inr (status_code, status_line (status_outp @ note) (strip perfdata))))))))"

text \<open>The demonstration host one second after a sample of the cpu line was stored.\<close>

definition cpu_sampled :: sys where
  "cpu_sampled = demo_host\<lparr>interim := [''proc_stat'' \<mapsto> (999, [(''cpu'', [100, 0, 50, 850, 0, 0, 0, 0])])]\<rparr>"

subsection \<open>\<^verbatim>\<open>check_load\<close>\<close>

text \<open>
  The loop over the threshold tuple, as \<^verbatim>\<open>check_load\<close> and \<^verbatim>\<open>check_procs\<close> write it:
  \<^verbatim>\<open>
  for i in range(len(warn)):
      if crit[i] and warn[i]:
          if float(value[i]) >= float(crit[i]):   status_code = 2; annotate
          elif float(value[i]) >= float(warn[i]): status_code = max(status_code, 1); annotate
          else:                                   annotate OK
  \<close>
  \<open>note k i\<close> is the annotation of position \<open>i\<close> classified as \<open>k\<close>; the state is the status
  code and the status text so far. A position with an empty bound is skipped.
\<close>

fun classify_each ::
  "(nat \<Rightarrow> nat \<Rightarrow> line) \<Rightarrow> rat list \<Rightarrow> string list \<Rightarrow> string list \<Rightarrow> nat list \<Rightarrow>
   nat \<times> line \<Rightarrow> (nat \<times> line) res" where
  "classify_each note vals warn crit [] st = Inr st"
| "classify_each note vals warn crit (i # rest) st =
     (case idx crit i of
        Inl e \<Rightarrow> Inl e
      | Inr ci \<Rightarrow>
          if ci = [] then classify_each note vals warn crit rest st
          else
            (case idx warn i of
               Inl e \<Rightarrow> Inl e
             | Inr wi \<Rightarrow>
                 if wi = [] then classify_each note vals warn crit rest st
                 else
                   (case idx vals i of
                      Inl e \<Rightarrow> Inl e
                    | Inr v \<Rightarrow>
                        (case py_float ci of
                           Inl e \<Rightarrow> Inl e
                         | Inr c \<Rightarrow>
                             if v \<ge> c then
                               classify_each note vals warn crit rest (2, snd st @ note 2 i)
                             else
                               (case py_float wi of
                                  Inl e \<Rightarrow> Inl e
                                | Inr w \<Rightarrow>
                                    if v \<ge> w then
                                      classify_each note vals warn crit rest
                                        (if fst st < 1 then 1 else fst st, snd st @ note 1 i)
                                    else
                                      classify_each note vals warn crit rest
                                        (fst st, snd st @ note 0 i))))))"

definition load_note :: "nat \<Rightarrow> nat \<Rightarrow> line" where
  "load_note k i =
     (if k = 2 then [S '' (Critical)''] else if k = 1 then [S '' (Warning)''] else [S '' (OK)''])"

text \<open>
  The performance data of \<^verbatim>\<open>check_load\<close>: position \<open>seq\<close> gets its bounds when the tuple
  is long enough.
\<close>

fun load_perfdata :: "(string list \<times> string list) option \<Rightarrow> nat \<Rightarrow> (string \<times> rat) list \<Rightarrow> line res" where
  "load_perfdata wc seq [] = Inr []"
| "load_perfdata wc seq ((x, v) # rest) =
     rbind (case wc of
              Some (warn, crit) \<Rightarrow>
                if length warn \<ge> seq + 1
                then rbind (idx crit seq) (\<lambda>c. Inr [S '';'', S (warn ! seq), S '';'', S c])
                else Inr []
            | None \<Rightarrow> Inr []) (\<lambda>th.
     rbind (load_perfdata wc (seq + 1) rest) (\<lambda>r.
       Inr ([S x, S ''='', F2 v] @ th @ [S '' ''] @ r)))"

definition tuple_thresholds ::
  "string list option \<Rightarrow> string list option \<Rightarrow> (string list \<times> string list) option" where
  "tuple_thresholds warn crit =
     (case (warn, crit) of (Some w, Some c) \<Rightarrow> Some (w, c) | _ \<Rightarrow> None)"

definition check_load :: "sys \<Rightarrow> string list option \<Rightarrow> string list option \<Rightarrow> outcome" where
  "check_load s warn crit =
     (case
        (let load_avgs = take 3 (fst (proc_loadavg s)) in
         rbind (idx load_avgs 0) (\<lambda>load1.
         rbind (idx load_avgs 1) (\<lambda>load5.
         rbind (idx load_avgs 2) (\<lambda>load15.
           let status_outp = [S ''Load1: '', F2 load1, S '' Load5: '', F2 load5,
                              S '' Load15: '', F2 load15]
           in
           rbind (case tuple_thresholds warn crit of
                    Some (w, c) \<Rightarrow> classify_each load_note load_avgs w c [0..<length w] (0, status_outp)
                  | None \<Rightarrow> Inr (0, status_outp)) (\<lambda>(status_code, status_outp).
           rbind (load_perfdata (tuple_thresholds warn crit) 0
                    [(''load1'', load1), (''load5'', load5), (''load15'', load15)]) (\<lambda>perfdata.
             Inr (Exit status_code [status_line status_outp (strip perfdata)])))))))
      of Inl e \<Rightarrow> Uncaught e | Inr out \<Rightarrow> out)"

subsection \<open>\<^verbatim>\<open>check_threads\<close>\<close>

text \<open>\<^verbatim>\<open>int(crit)\<close>, \<^verbatim>\<open>int(warn)\<close>: the thread bounds are read as integers.\<close>

definition py_int_value :: "string \<Rightarrow> rat res" where
  "py_int_value x = rbind (py_int x) (\<lambda>n. Inr (of_int n))"

definition plain_token :: "(string \<Rightarrow> line) \<Rightarrow> string \<Rightarrow> rat \<Rightarrow> line" where
  "plain_token bounds x v = [S x, S ''='', F2 v] @ bounds x @ [S '' '']"

definition check_threads :: "sys \<Rightarrow> string option \<Rightarrow> string option \<Rightarrow> outcome" where
  "check_threads s warn crit =
     (case
        rbind (idx (snd (proc_loadavg s)) 0) (\<lambda>running.
        rbind (idx (snd (proc_loadavg s)) 1) (\<lambda>tot.
          let threads = [''running'' \<mapsto> of_int running, ''total'' \<mapsto> of_int tot];
              status_outp = [S ''Threads: '', D running, S ''/'', D tot]
          in
          rbind (case thresholds warn crit of
                   Some (w, c) \<Rightarrow> classify_scalar py_int_value (of_int running) w c
                 | None \<Rightarrow> Inr (0, [])) (\<lambda>(status_code, note).
          rbind (perf_loop
                   (plain_token (\<lambda>x. case thresholds warn crit of
                        Some (w, c) \<Rightarrow> if x = ''running'' then [S '';'', S w, S '';'', S c] else []
                      | None \<Rightarrow> []))
                   threads [''running'', ''total'']) (\<lambda>perfdata.
            Inr (Exit status_code [status_line (status_outp @ note) (strip perfdata)])))))
      of Inl e \<Rightarrow> Uncaught e | Inr out \<Rightarrow> out)"

subsection \<open>\<^verbatim>\<open>check_openfiles\<close>\<close>

definition check_openfiles :: "sys \<Rightarrow> string option \<Rightarrow> string option \<Rightarrow> outcome" where
  "check_openfiles s warn crit =
     (case
        rbind (idx (file_nr s) 0) (\<lambda>opn.
        rbind (idx (file_nr s) 1) (\<lambda>free.
        rbind (idx (file_nr s) 2) (\<lambda>tot.
          let ofiles = [''open'' \<mapsto> of_int opn, ''free'' \<mapsto> of_int free, ''total'' \<mapsto> of_int tot];
              status_outp = [S ''Open Files: '', D opn, S '' (free: '', D free, S '')'']
          in
          rbind (case thresholds warn crit of
                   Some (w, c) \<Rightarrow> classify_scalar py_float (of_int opn) w c
                 | None \<Rightarrow> Inr (0, [])) (\<lambda>(status_code, note).
          rbind (perf_loop
                   (plain_token (\<lambda>x. case thresholds warn crit of
                        Some (w, c) \<Rightarrow>
                          if x = ''open'' then [S '';'', S w, S '';'', S c, S '';0;'', D tot] else []
                      | None \<Rightarrow> []))
                   ofiles [''open'', ''free'']) (\<lambda>perfdata.
            Inr (Exit status_code [status_line (status_outp @ note) (strip perfdata)]))))))
      of Inl e \<Rightarrow> Uncaught e | Inr out \<Rightarrow> out)"

subsection \<open>\<^verbatim>\<open>check_disku\<close>\<close>

definition check_disku :: "sys \<Rightarrow> string \<Rightarrow> string option \<Rightarrow> string option \<Rightarrow> outcome" where
  "check_disku s mount warn crit =
     (case statvfs s mount of
        None \<Rightarrow> Exit 3 [[S ''Plugin Error: Mount point not valid: ('', S mount, S '')'']]
      | Some (f_frsize, f_blocks, f_bfree, f_bavail) \<Rightarrow>
          (case
             (let size = of_int (f_frsize * f_blocks) / 1024 / 1024 / 1024;
                  free = (of_int (f_frsize * f_bfree) / 1024 / 1024 / 1024 :: rat);
                  avail = (of_int (f_frsize * f_bavail) / 1024 / 1024 / 1024 :: rat)
              in
              if size = 0 then Inl ZeroDivisionError
              else
                let used_pc = (size - avail) / size * 100;
                    status_outp = [S mount, S '' Used: '', F2 (size - avail), S '' GB / '', F2 size,
                                   S '' GB ('', F2 used_pc, S ''%)'']
                in
                rbind (case thresholds warn crit of
                         Some (w, c) \<Rightarrow> classify_scalar py_float used_pc w c
                       | None \<Rightarrow> Inr (0, [])) (\<lambda>(status_code, note).
                  Inr (Exit status_code
                         [status_line (status_outp @ note)
                            ([S ''used'', S ''='', F2 used_pc, S ''%'']
                             @ (case thresholds warn crit of
                                  Some (w, c) \<Rightarrow> [S '';'', S w, S '';'', S c]
                                | None \<Rightarrow> []))])))
           of Inl e \<Rightarrow> Uncaught e | Inr out \<Rightarrow> out))"

subsection \<open>\<^verbatim>\<open>check_procs\<close>\<close>

text \<open>
  The scan for the line \<^verbatim>\<open>processes n\<close>: every such line assigns, so the last one stays;
  \<open>upd\<close> is what is assigned from the number read.
\<close>

fun scan_processes :: "(int \<Rightarrow> int) \<Rightarrow> pfile \<Rightarrow> int \<Rightarrow> int res" where
  "scan_processes upd [] acc = Inr acc"
| "scan_processes upd ((label, nums) # rest) acc =
     (if label = ''processes''
      then rbind (idx nums 0) (\<lambda>v. scan_processes upd rest (upd v))
      else scan_processes upd rest acc)"

text \<open>\<^verbatim>\<open>proc_dir.isdigit()\<close>\<close>

definition isdigit :: "string \<Rightarrow> bool" where
  "isdigit d = (d \<noteq> [] \<and> (\<forall>c \<in> set d. digit_val c \<noteq> None))"

text \<open>\<^verbatim>\<open>states_procs\<close>: a dictionary from state to the list of command names, in insertion order.\<close>

fun append_state :: "(string \<times> string list) list \<Rightarrow> string \<Rightarrow> string \<Rightarrow> (string \<times> string list) list" where
  "append_state [] st comm = [(st, [comm])]"
| "append_state ((k, vs) # rest) st comm =
     (if k = st then (k, vs @ [comm]) # rest else (k, vs) # append_state rest st comm)"

text \<open>
  The walk over \<^verbatim>\<open>/proc\<close>: every numeric entry counts for \<open>p_total\<close> before its \<^verbatim>\<open>stat\<close> file
  is opened; an entry that cannot be read is left out of \<open>states_procs\<close> (\<^verbatim>\<open>except: continue\<close>).
\<close>

fun walk_proc ::
  "(string \<times> string list option) list \<Rightarrow> nat \<Rightarrow> (string \<times> string list) list \<Rightarrow>
   (nat \<times> (string \<times> string list) list) res" where
  "walk_proc [] p_total states_procs = Inr (p_total, states_procs)"
| "walk_proc ((proc_dir, stat) # rest) p_total states_procs =
     (if isdigit proc_dir then
        (case stat of
           None \<Rightarrow> walk_proc rest (p_total + 1) states_procs
         | Some toks \<Rightarrow>
             (let ln = take 2 (drop 1 toks) in
              case idx ln 1 of
                Inl e \<Rightarrow> Inl e
              | Inr st \<Rightarrow> walk_proc rest (p_total + 1) (append_state states_procs st (ln ! 0))))
      else walk_proc rest p_total states_procs)"

record tally =
  running :: nat
  sleeping :: nat
  waiting :: nat
  zombie :: nat
  others :: nat

definition count_state :: "string \<times> string list \<Rightarrow> tally \<Rightarrow> tally" where
  "count_state e p =
     (let st = fst e; n = length (snd e) in
      if st = ''R'' then p\<lparr>running := running p + n\<rparr>
      else if st = ''S'' then p\<lparr>sleeping := sleeping p + n\<rparr>
      else if st = ''D'' then p\<lparr>waiting := waiting p + n\<rparr>
      else if st = ''Z'' then p\<lparr>zombie := zombie p + n\<rparr>
      else p\<lparr>others := others p + n\<rparr>)"

definition count_states :: "(string \<times> string list) list \<Rightarrow> tally" where
  "count_states states_procs =
     fold count_state states_procs
       \<lparr>running = 0, sleeping = 0, waiting = 0, zombie = 0, others = 0\<rparr>"

definition param :: "string list" where
  "param = [''total'', ''running'', ''waiting'']"

definition procs_note :: "nat \<Rightarrow> nat \<Rightarrow> line" where
  "procs_note k i =
     (if k = 2 then [S '' (Critical '', S (param ! i), S '')'']
      else if k = 1 then [S '' (Warning '', S (param ! i), S '')'']
      else [S '' (OK)''])"

text \<open>
  The performance data of \<^verbatim>\<open>check_procs\<close>: \<open>seq\<close> advances only on the three metrics that
  have bounds.
\<close>

fun procs_perfdata :: "(string list \<times> string list) option \<Rightarrow> nat \<Rightarrow> (string \<times> rat) list \<Rightarrow> line res" where
  "procs_perfdata wc seq [] = Inr []"
| "procs_perfdata wc seq ((x, v) # rest) =
     (case wc of
        Some (warn, crit) \<Rightarrow>
          if x \<in> set param \<and> length warn \<ge> seq + 1 then
            rbind (idx crit seq) (\<lambda>c.
            rbind (procs_perfdata wc (seq + 1) rest) (\<lambda>r.
              Inr ([S x, S ''='', F2 v, S '';'', S (warn ! seq), S '';'', S c, S '' ''] @ r)))
          else
            rbind (procs_perfdata wc seq rest) (\<lambda>r. Inr ([S x, S ''='', F2 v, S '' ''] @ r))
      | None \<Rightarrow>
          rbind (procs_perfdata wc seq rest) (\<lambda>r. Inr ([S x, S ''='', F2 v, S '' ''] @ r)))"

text \<open>The part of \<^verbatim>\<open>check_procs\<close> after the first-run test, up to the status line.\<close>

definition procs_report ::
  "sys \<Rightarrow> rat \<Rightarrow> pfile \<Rightarrow> string list option \<Rightarrow> string list option \<Rightarrow> (nat \<times> line) res" where
  "procs_report s mtime old warn crit =
     (let sample_period = clock s - mtime in
      rbind (scan_processes (\<lambda>v. v) (proc_stat s) 0) (\<lambda>curr_forks.
      rbind (scan_processes (\<lambda>v. curr_forks - v) old 0) (\<lambda>forks.
      rbind (if sample_period = 0 then Inl ZeroDivisionError
             else Inr (of_int forks / sample_period)) (\<lambda>forks_ps.
      rbind (walk_proc (proc_dirs s) 0 []) (\<lambda>(p_total, states_procs).
        let p = count_states states_procs;
            status_outp =
              [S ''Total: '', D (int p_total), S '' Running: '', D (int (running p)),
               S '' Sleeping: '', D (int (sleeping p)), S '' Waiting: '', D (int (waiting p)),
               S '' Zombie: '', D (int (zombie p)), S '' Others: '', D (int (others p)),
               S '' New_Forks: '', F2 forks_ps, S ''/s'']
        in
        rbind (case tuple_thresholds warn crit of
                 Some (w, c) \<Rightarrow>
                   classify_each procs_note
                     [of_nat p_total, of_nat (running p), of_nat (waiting p)] w c
                     [0..<length w] (0, status_outp)
               | None \<Rightarrow> Inr (0, status_outp)) (\<lambda>(status_code, status_outp).
        rbind (procs_perfdata (tuple_thresholds warn crit) 0
                 [(''total'', of_nat p_total), (''forks'', forks_ps),
                  (''sleeping'', of_nat (sleeping p)), (''running'', of_nat (running p)),
                  (''waiting'', of_nat (waiting p)), (''zombie'', of_nat (zombie p)),
                  (''others'', of_nat (others p))]) (\<lambda>perfdata.
          Inr (status_code, status_line status_outp (strip perfdata)))))))))"

definition check_procs :: "sys \<Rightarrow> string list option \<Rightarrow> string list option \<Rightarrow> run" where
  "check_procs s warn crit =
     (case interim s ''proc_stat_processes'' of
        None \<Rightarrow>
          (Exit 0 [[S ''This was the first run, run again to get values'']],
           copyfile s (proc_stat s) ''proc_stat_processes'')
      | Some (mtime, old) \<Rightarrow>
          finish s (proc_stat s) ''proc_stat_processes'' (procs_report s mtime old warn crit))"

subsection \<open>\<^verbatim>\<open>check_diskio\<close>\<close>

text \<open>The first line of a counter file that belongs to a device or an interface.\<close>

definition find_line :: "string \<Rightarrow> pfile \<Rightarrow> int list option" where
  "find_line name f = map_of f name"

text \<open>
  One entry of the dictionary \<open>d\<close>: \<^verbatim>\<open>(int(proc_line[k]) - int(interim_line[k])) / sample_period\<close>.
  \<open>interim_line\<close> is unbound when the stored file has no line for the device.
\<close>

definition disk_rate :: "int list \<Rightarrow> int list option \<Rightarrow> rat \<Rightarrow> nat \<Rightarrow> rat res" where
  "disk_rate proc_line interim_line sample_period k =
     rbind (idx proc_line k) (\<lambda>b.
     rbind (case interim_line of None \<Rightarrow> Inl UnboundLocalError | Some l \<Rightarrow> idx l k) (\<lambda>a.
       if sample_period = 0 then Inl ZeroDivisionError
       else Inr (of_int (b - a) / sample_period)))"

text \<open>\<^verbatim>\<open>float(a) >= float(th[0]) or float(b) >= float(th[1])\<close>\<close>

definition reaches_any :: "rat \<Rightarrow> rat \<Rightarrow> string list \<Rightarrow> bool res" where
  "reaches_any a b th =
     rbind (idx th 0) (\<lambda>t0.
     rbind (py_float t0) (\<lambda>x.
       if a \<ge> x then Inr True
       else rbind (idx th 1) (\<lambda>t1. rbind (py_float t1) (\<lambda>y. Inr (b \<ge> y)))))"

text \<open>The bounds printed after a metric of a two-valued probe.\<close>

definition pair_bounds ::
  "(string list \<times> string list) option \<Rightarrow> string \<Rightarrow> string \<Rightarrow> string \<Rightarrow> line res" where
  "pair_bounds wc first second x =
     (case wc of
        Some (warn, crit) \<Rightarrow>
          if x = first then
            rbind (idx warn 0) (\<lambda>w. rbind (idx crit 0) (\<lambda>c. Inr [S '';'', S w, S '';'', S c]))
          else if x = second then
            rbind (idx warn 1) (\<lambda>w. rbind (idx crit 1) (\<lambda>c. Inr [S '';'', S w, S '';'', S c]))
          else Inr []
      | None \<Rightarrow> Inr [])"

fun pair_perfdata ::
  "(string list \<times> string list) option \<Rightarrow> string \<Rightarrow> string \<Rightarrow> (string \<times> rat) list \<Rightarrow> line res" where
  "pair_perfdata wc first second [] = Inr []"
| "pair_perfdata wc first second ((x, v) # rest) =
     rbind (pair_bounds wc first second x) (\<lambda>th.
     rbind (pair_perfdata wc first second rest) (\<lambda>r.
       Inr ([S x, S ''='', F2 v] @ th @ [S '' ''] @ r)))"

text \<open>\<^verbatim>\<open>device.replace("/", "_")\<close>\<close>

definition replace_slash :: "string \<Rightarrow> string" where
  "replace_slash d = map (\<lambda>c. if c = CHR ''/'' then CHR ''_'' else c) d"

definition startswith :: "string \<Rightarrow> string \<Rightarrow> bool" where
  "startswith x p = (take (length p) x = p)"

definition diskio_report ::
  "sys \<Rightarrow> string \<Rightarrow> string \<Rightarrow> int list \<Rightarrow> rat \<Rightarrow> pfile \<Rightarrow>
   string list option \<Rightarrow> string list option \<Rightarrow> (nat \<times> line) res" where
  "diskio_report s dev device proc_line mtime old warn crit =
     (let sample_period = clock s - mtime;
          interim_line = find_line device old
      in
      rbind (disk_rate proc_line interim_line sample_period 0) (\<lambda>read_operations.
      rbind (disk_rate proc_line interim_line sample_period 2) (\<lambda>read_sectors.
      rbind (disk_rate proc_line interim_line sample_period 3) (\<lambda>read_time.
      rbind (disk_rate proc_line interim_line sample_period 4) (\<lambda>write_operations.
      rbind (disk_rate proc_line interim_line sample_period 6) (\<lambda>write_sectors.
      rbind (disk_rate proc_line interim_line sample_period 7) (\<lambda>write_time.
        let status_outp =
              [S dev, S '' ('', S device, S '') Read: '', F2 read_sectors, S '' sec/s ('',
               F2 read_operations, S '' t/s) Write: '', F2 write_sectors, S '' sec/s ('',
               F2 write_operations, S '' t/s) [t:'', F2 sample_period, S '']'']
        in
        rbind (case tuple_thresholds warn crit of
                 Some (w, c) \<Rightarrow>
                   rbind (reaches_any read_sectors write_sectors c) (\<lambda>critical.
                     if critical then Inr (2, [S '' (Critical)''])
                     else rbind (reaches_any read_sectors write_sectors w) (\<lambda>warning.
                       if warning then Inr (1, [S '' (Warning)''])
                       else Inr (0, [S '' (OK)''])))
               | None \<Rightarrow> Inr (0, [])) (\<lambda>(status_code, note).
        rbind (pair_perfdata (tuple_thresholds warn crit) ''read_sectors'' ''write_sectors''
                 [(''read_operations'', read_operations), (''read_sectors'', read_sectors),
                  (''read_time'', read_time), (''write_operations'', write_operations),
                  (''write_sectors'', write_sectors), (''write_time'', write_time)]) (\<lambda>perfdata.
          Inr (status_code, status_line (status_outp @ note) (strip perfdata)))))))))))"

definition check_diskio :: "sys \<Rightarrow> string \<Rightarrow> string list option \<Rightarrow> string list option \<Rightarrow> run" where
  "check_diskio s dev warn crit =
     (if startswith dev ''/'' \<and> \<not> startswith (realpath s dev) ''/dev/'' then
        (Exit 3 [[S ''Plugin Error: Block device not found: '', S dev]], interim s)
      else
        let device = (if startswith dev ''/'' then drop 5 (realpath s dev) else dev) in
        case find_line device (diskstats s) of
          None \<Rightarrow>
            (Exit 3 [[S ''Plugin Error: Block device not found: ('', S device, S '')'']], interim s)
        | Some proc_line \<Rightarrow>
            let interim_file = ''proc_diskstats_'' @ replace_slash device in
            (case interim s interim_file of
               None \<Rightarrow>
                 (Exit 0 [[S ''This was the first run, run again to get values: diskio('',
                           S device, S '')'']],
                  copyfile s (diskstats s) interim_file)
             | Some (mtime, old) \<Rightarrow>
                 finish s (diskstats s) interim_file
                   (diskio_report s dev device proc_line mtime old warn crit)))"

subsection \<open>\<^verbatim>\<open>check_net\<close>\<close>

definition net_fields :: "string list" where
  "net_fields =
     [''r_bytes'', ''r_packets'', ''r_errs'', ''r_drop'', ''r_fifo'', ''r_frame'', ''r_compressed'',
      ''r_multicast'', ''t_bytes'', ''t_packets'', ''t_errs'', ''t_drop'', ''t_fifo'', ''t_colls'',
      ''t_carrier'', ''t_compressed'']"

definition hard_errors :: "string list" where
  "hard_errors =
     [''r_errs'', ''r_drop'', ''r_fifo'', ''r_frame'', ''t_errs'', ''t_drop'', ''t_fifo'', ''t_colls'',
      ''t_carrier'']"

text \<open>
  The two passes over \<^verbatim>\<open>/proc/net/dev\<close> and the stored copy. The first fills \<open>int_t\<close> from
  the current line, the second \<open>int_d\<close> with the differences; each reads sixteen fields by
  position. \<open>None\<close> stands for a dictionary left empty, which the probe reports as a
  missing device. A stored line without a current one reads \<open>int_t[x]\<close> of an empty
  dictionary.
\<close>

definition net_deltas :: "int list option \<Rightarrow> int list option \<Rightarrow> (string \<rightharpoonup> int) option res" where
  "net_deltas cur old =
     (case cur of
        None \<Rightarrow>
          (case old of
             None \<Rightarrow> Inr None
           | Some prev \<Rightarrow> if prev = [] then Inl IndexError else Inl KeyError)
      | Some c \<Rightarrow>
          if length c < 16 then Inl IndexError
          else
            (case old of
               None \<Rightarrow> Inr None
             | Some prev \<Rightarrow>
                 if length prev < 16 then Inl IndexError
                 else Inr (Some (map_of (zip net_fields (map (\<lambda>(t, i). t - i) (zip c prev)))))))"

text \<open>
  \<^verbatim>\<open>
  for x in [...hard errors...]:
      if float(int_d[x]) > 0:
          int_d['PK_ERRORS'] += int_d[x]; status_code = 2; status_outp += ...
  \<close>
  The state is \<open>PK_ERRORS\<close>, the status code and the status text.
\<close>

fun pk_errors :: "(string \<rightharpoonup> int) \<Rightarrow> string list \<Rightarrow> int \<times> nat \<times> line \<Rightarrow> (int \<times> nat \<times> line) res" where
  "pk_errors int_d [] st = Inr st"
| "pk_errors int_d (x # xs) (pk, status_code, status_outp) =
     (case key int_d x of
        Inl e \<Rightarrow> Inl e
      | Inr v \<Rightarrow>
          if v > 0 then
            pk_errors int_d xs
              (pk + v, 2, status_outp @ [S '' (Critical '', S x, S '':'', D v, S '')''])
          else pk_errors int_d xs (pk, status_code, status_outp))"

definition net_report ::
  "sys \<Rightarrow> string \<Rightarrow> (string \<rightharpoonup> int) \<Rightarrow> rat \<Rightarrow> string list option \<Rightarrow> string list option \<Rightarrow>
   (nat \<times> line) res" where
  "net_report s interface int_d mtime warn crit =
     (let sample_period = clock s - mtime in
      rbind (key int_d ''r_bytes'') (\<lambda>r_bytes.
      rbind (if sample_period = 0 then Inl ZeroDivisionError
             else Inr (of_int r_bytes / 1024 / 1024 / sample_period)) (\<lambda>RX_MBps.
      rbind (key int_d ''t_bytes'') (\<lambda>t_bytes.
      rbind (if sample_period = 0 then Inl ZeroDivisionError
             else Inr (of_int t_bytes / 1024 / 1024 / sample_period)) (\<lambda>TX_MBps.
      rbind (key int_d ''r_packets'') (\<lambda>r_packets.
      rbind (if sample_period = 0 then Inl ZeroDivisionError
             else Inr (of_int r_packets / sample_period)) (\<lambda>RX_PKps.
      rbind (key int_d ''t_packets'') (\<lambda>t_packets.
      rbind (if sample_period = 0 then Inl ZeroDivisionError
             else Inr (of_int t_packets / sample_period)) (\<lambda>TX_PKps.
        let status_outp =
              [S interface, S '' Rx: '', F2 RX_MBps, S '' MB/s ('', F2 RX_PKps, S '' p/s)'',
               S '' Tx: '', F2 TX_MBps, S '' MB/s ('', F2 TX_PKps, S '' p/s)'',
               S '' [t:'', F2 sample_period, S '']'']
        in
        rbind (pk_errors int_d hard_errors (0, 0, status_outp)) (\<lambda>(PK_ERRORS, status_code, status_outp).
        rbind (case tuple_thresholds warn crit of
                 Some (w, c) \<Rightarrow>
                   if PK_ERRORS = 0 then
                     rbind (reaches_any RX_MBps TX_MBps c) (\<lambda>critical.
                       if critical then Inr (2, status_outp @ [S '' (Critical BW)''])
                       else rbind (reaches_any RX_MBps TX_MBps w) (\<lambda>warning.
                         if warning then
                           Inr (if status_code < 1 then 1 else status_code,
                                status_outp @ [S '' (Warning BW)''])
                         else Inr (status_code, status_outp @ [S '' (OK)''])))
                   else Inr (status_code, status_outp)
               | None \<Rightarrow> Inr (status_code, status_outp)) (\<lambda>(status_code, status_outp).
        rbind (pair_perfdata (tuple_thresholds warn crit) ''RX_MBps'' ''TX_MBps''
                 [(''RX_MBps'', RX_MBps), (''RX_PKps'', RX_PKps), (''TX_MBps'', TX_MBps),
                  (''TX_PKps'', TX_PKps), (''PK_ERRORS'', of_int PK_ERRORS)]) (\<lambda>perfdata.
          Inr (status_code, status_line status_outp (strip perfdata))))))))))))))"

definition check_net :: "sys \<Rightarrow> string \<Rightarrow> string list option \<Rightarrow> string list option \<Rightarrow> run" where
  "check_net s interface warn crit =
     (let interim_file = ''proc_net_dev_'' @ interface in
      case interim s interim_file of
        None \<Rightarrow>
          (Exit 0 [[S ''This was the first run, run again to get values: net:'', S interface]],
           copyfile s (net_dev s) interim_file)
      | Some (mtime, old) \<Rightarrow>
          (case net_deltas (find_line interface (net_dev s)) (find_line interface old) of
             Inl e \<Rightarrow> (Uncaught e, interim s)
           | Inr None \<Rightarrow>
               (Exit 3 [[S ''Plugin Error: Network device not found: ('', S interface, S '')'']],
                interim s)
           | Inr (Some int_d) \<Rightarrow>
               finish s (net_dev s) interim_file (net_report s interface int_d mtime warn crit)))"

section \<open>The entry point\<close>










text \<open>The device name \<^verbatim>\<open>check_diskio\<close> looks up, when the argument resolves to one.\<close>

definition resolves_to :: "sys \<Rightarrow> string \<Rightarrow> string \<Rightarrow> bool" where
  "resolves_to s dev device =
     (if startswith dev ''/''
      then startswith (realpath s dev) ''/dev/'' \<and> device = drop 5 (realpath s dev)
      else device = dev)"

text \<open>The number of processes recorded in \<open>states_procs\<close>, and the sum of the five tallies.\<close>

definition tracked :: "(string \<times> string list) list \<Rightarrow> nat" where
  "tracked states_procs = sum_list (map (\<lambda>e. length (snd e)) states_procs)"

definition tally_sum :: "tally \<Rightarrow> nat" where
  "tally_sum p = running p + sleeping p + waiting p + zombie p + others p"

text \<open>The numeric entries of \<^verbatim>\<open>/proc\<close> whose \<^verbatim>\<open>stat\<close> file could not be read.\<close>

definition vanished :: "(string \<times> string list option) list \<Rightarrow> (string \<times> string list option) list" where
  "vanished dirs = filter (\<lambda>e. isdigit (fst e) \<and> snd e = None) dirs"

text \<open>
  The severity of sub-metric \<open>i\<close> and the overall severity in the words of the
  specification: the maximum over the sub-metrics, OK when there is none.
\<close>

definition sev_at :: "rat list \<Rightarrow> rat list \<Rightarrow> rat list \<Rightarrow> nat \<Rightarrow> nat" where
  "sev_at vals ws cs i = severity (vals ! i) (ws ! i) (cs ! i)"

definition max_severity :: "rat list \<Rightarrow> rat list \<Rightarrow> rat list \<Rightarrow> nat" where
  "max_severity vals ws cs = Max (set (0 # map (sev_at vals ws cs) [0..<length ws]))"

text \<open>The demonstration host one second after a sample of \<^verbatim>\<open>/proc/stat\<close> was stored for the procs probe.\<close>

definition procs_sampled :: sys where
  "procs_sampled = demo_host\<lparr>interim := [''proc_stat_processes'' \<mapsto> (999, [(''processes'', [4990])])]\<rparr>"

text \<open>
  The demonstration host one second after a sample of \<^verbatim>\<open>/proc/net/dev\<close> was stored: since
  then \<open>eth0\<close> has dropped three received packets. In the second host the stored sample is
  from before a restart of the counters, so the error counter went down.
\<close>

definition net_sampled :: sys where
  "net_sampled =
     demo_host\<lparr>net_dev := [(''eth0'', [2097152, 100, 0, 3, 0, 0, 0, 0, 1048576, 50, 0, 0, 0, 0, 0, 0])],
               interim := [''proc_net_dev_eth0'' \<mapsto>
                 (999, [(''eth0'', [1048576, 50, 0, 0, 0, 0, 0, 0, 0, 0, 0, 0, 0, 0, 0, 0])])]\<rparr>"

definition net_restarted :: sys where
  "net_restarted =
     demo_host\<lparr>interim := [''proc_net_dev_eth0'' \<mapsto>
                 (999, [(''eth0'', [1048576, 50, 1, 0, 0, 0, 0, 0, 0, 0, 0, 0, 0, 0, 0, 0])])]\<rparr>"

text \<open>
  The demonstration host invoked again at the very instant its samples were stored (no
  counter of the cpu line has moved), and invoked with a clock one second behind the
  modification time of the stored network sample.
\<close>

definition same_instant :: sys where
  "same_instant =
     demo_host\<lparr>interim :=
       [''proc_stat'' \<mapsto> (1000, [(''cpu'', [150, 0, 70, 870, 0, 0, 0, 0])]),
        ''proc_stat_processes'' \<mapsto> (1000, [(''processes'', [4990])]),
        ''proc_diskstats_sda'' \<mapsto> (1000, [(''sda'', [90, 0, 700, 10, 40, 0, 300, 5])]),
        ''proc_net_dev_eth0'' \<mapsto>
          (1000, [(''eth0'', [1048576, 50, 0, 0, 0, 0, 0, 0, 0, 0, 0, 0, 0, 0, 0, 0])])]\<rparr>"

definition net_skewed :: sys where
  "net_skewed =
     demo_host\<lparr>interim := [''proc_net_dev_eth0'' \<mapsto>
                 (1001, [(''eth0'', [1048576, 50, 0, 0, 0, 0, 0, 0, 0, 0, 0, 0, 0, 0, 0, 0])])]\<rparr>"

text \<open>The demonstration host one second after all four samples were stored.\<close>

definition all_sampled :: sys where
  "all_sampled =
     demo_host\<lparr>interim :=
       [''proc_stat'' \<mapsto> (999, [(''cpu'', [100, 0, 50, 850, 0, 0, 0, 0])]),
        ''proc_stat_processes'' \<mapsto> (999, [(''processes'', [4990])]),
        ''proc_diskstats_sda'' \<mapsto> (999, [(''sda'', [90, 0, 700, 10, 40, 0, 300, 5])]),
        ''proc_net_dev_eth0'' \<mapsto>
          (999, [(''eth0'', [1048576, 50, 0, 0, 0, 0, 0, 0, 0, 0, 0, 0, 0, 0, 0, 0])])]\<rparr>"

section \<open>Theorems\<close>

text \<open>
  Claim C8. In the swap probe, when the total configured swap is zero, the invocation
  prints the explanatory line with an empty performance part (so no thresholds) and ends
  with exit code 0, whatever warn and crit are; nothing is classified.
\<close>

theorem swap_short_circuit:
  "meminfo s ''SwapTotal'' = Some 0 \<Longrightarrow>
   check_swap s warn crit =
     Exit 0 [[S ''No swap space configured on this system'', S '' | '']]"
  by (simp add: check_swap_def rbind_def key_def status_line_def)

theorem swap_short_circuit_witness:
  "meminfo (demo_host\<lparr>meminfo := [''SwapTotal'' \<mapsto> 0]\<rparr>) ''SwapTotal'' = Some 0
   \<and> check_swap (demo_host\<lparr>meminfo := [''SwapTotal'' \<mapsto> 0]\<rparr>) (Some ''10'') (Some ''5'') =
     Exit 0 [[S ''No swap space configured on this system'', S '' | '']]"
  using swap_short_circuit
    [of "demo_host\<lparr>meminfo := [''SwapTotal'' \<mapsto> 0]\<rparr>" "Some ''10''" "Some ''5''"]
  by simp

lemma classify_scalar_parsed:
  "conv warn = Inr w \<Longrightarrow> conv crit = Inr c \<Longrightarrow>
   classify_scalar conv v warn crit = Inr (severity v w c, [S (severity_note (severity v w c))])"
  by (simp add: classify_scalar_def rbind_def severity_def severity_note_def)

lemma check_memory_with_thresholds:
  assumes "py_float warn = Inr w" and "py_float crit = Inr c"
    and "meminfo s ''MemTotal'' = Some t" and "meminfo s ''Active'' = Some a"
    and "meminfo s ''Cached'' = Some ca" and "meminfo s ''Buffers'' = Some b"
    and "meminfo s ''MemFree'' = Some f" and "t \<noteq> 0"
  shows "check_memory s (Some warn) (Some crit) =
           Exit (severity (of_int (t - f - ca - b) / of_int t * 100) w c)
             [[S ''Memory Used: '', F2 (of_int (t - f - ca - b) / 1024), S ''MB / '',
               F2 (of_int t / 1024), S ''MB ('', F2 (of_int (t - f - ca - b) / of_int t * 100),
               S ''%)'', S (severity_note (severity (of_int (t - f - ca - b) / of_int t * 100) w c)),
               S '' | '',
               S ''used'', S ''='', F2 (of_int (t - f - ca - b) / 1024),
               S '';'', D (py_trunc (of_int t / 1024 * w / 100)),
               S '';'', D (py_trunc (of_int t / 1024 * c / 100)),
               S '';0;'', D (py_trunc (of_int t / 1024)), S '' '',
               S ''cached'', S ''='', F2 (of_int (ca + b) / 1024), S '' '',
               S ''active'', S ''='', F2 (of_int a / 1024)]]"
  using assms
  by (simp add: check_memory_def rbind_def key_def thresholds_def
        classify_scalar_parsed used_perfdata_def status_line_def strip_def Let_def)

lemma check_swap_with_thresholds:
  assumes "py_float warn = Inr w" and "py_float crit = Inr c"
    and "meminfo s ''SwapTotal'' = Some st" and "meminfo s ''SwapCached'' = Some sc"
    and "meminfo s ''SwapFree'' = Some sf" and "st \<noteq> 0"
  shows "check_swap s (Some warn) (Some crit) =
           Exit (severity (of_int (st - sf - sc) / of_int st * 100) w c)
             [[S ''Swap Used: '', F2 (of_int (st - sf - sc) / 1024), S ''MB / '',
               F2 (of_int st / 1024), S ''MB ('', F2 (of_int (st - sf - sc) / of_int st * 100),
               S ''%)'', S (severity_note (severity (of_int (st - sf - sc) / of_int st * 100) w c)),
               S '' | '',
               S ''used'', S ''='', F2 (of_int (st - sf - sc) / 1024),
               S '';'', D (py_trunc (of_int st / 1024 * w / 100)),
               S '';'', D (py_trunc (of_int st / 1024 * c / 100)),
               S '';0;'', D (py_trunc (of_int st / 1024)), S '' '',
               S ''cached'', S ''='', F2 (of_int sc / 1024)]]"
  using assms
  by (simp add: check_swap_def rbind_def key_def thresholds_def
        classify_scalar_parsed used_perfdata_def status_line_def strip_def Let_def)





lemma cpu_percents_eq:
  "sum_list deltas \<noteq> 0 \<Longrightarrow>
   cpu_percents deltas = Inr (map (\<lambda>x. 100 * of_int x / of_int (sum_list deltas)) deltas)"
  by (simp add: cpu_percents_def Let_def diff_divide_distrib)

lemma cpu_pcts_eq:
  assumes "sum_list (cpu_deltas old new) \<noteq> 0" and "7 \<le> length (cpu_deltas old new)"
  shows "cpu_pcts old new =
     Inr [''user'' \<mapsto> 100 * of_int (cpu_deltas old new ! 0) / of_int (sum_list (cpu_deltas old new)),
          ''nice'' \<mapsto> 100 * of_int (cpu_deltas old new ! 1) / of_int (sum_list (cpu_deltas old new)),
          ''system'' \<mapsto> 100 * of_int (cpu_deltas old new ! 2) / of_int (sum_list (cpu_deltas old new)),
          ''idle'' \<mapsto> 100 * of_int (cpu_deltas old new ! 3) / of_int (sum_list (cpu_deltas old new)),
          ''iowait'' \<mapsto> 100 * of_int (cpu_deltas old new ! 4) / of_int (sum_list (cpu_deltas old new)),
          ''irq'' \<mapsto> 100 * of_int (cpu_deltas old new ! 5) / of_int (sum_list (cpu_deltas old new)),
          ''softirq'' \<mapsto> 100 * of_int (cpu_deltas old new ! 6) / of_int (sum_list (cpu_deltas old new)),
          ''steal'' \<mapsto> (if 8 \<le> length (cpu_deltas old new)
                        then 100 * of_int (cpu_deltas old new ! 7) / of_int (sum_list (cpu_deltas old new))
                        else 0),
          ''cpu'' \<mapsto> 100 - 100 * of_int (cpu_deltas old new ! 3) / of_int (sum_list (cpu_deltas old new))]"
  using assms
  by (auto simp: cpu_pcts_def cpu_percents_eq rbind_def idx_def Let_def)

lemma check_cpu_report:
  assumes "interim s ''proc_stat'' = Some (mtime, old)"
    and "ds = cpu_deltas old (proc_stat s)" and "sum_list ds \<noteq> 0" and "7 \<le> length ds"
  shows "fst (check_cpu s None None) =
     Exit 0 [[S ''CPU Usage: '', F2 (100 - 100 * of_int (ds ! 3) / of_int (sum_list ds)),
              S ''% [t:'', F2 (clock s - mtime), S '']'', S '' | '',
              S ''cpu'', S ''='', F2 (100 - 100 * of_int (ds ! 3) / of_int (sum_list ds)), S ''%'', S '' '',
              S ''user'', S ''='', F2 (100 * of_int (ds ! 0) / of_int (sum_list ds)), S ''%'', S '' '',
              S ''system'', S ''='', F2 (100 * of_int (ds ! 2) / of_int (sum_list ds)), S ''%'', S '' '',
              S ''iowait'', S ''='', F2 (100 * of_int (ds ! 4) / of_int (sum_list ds)), S ''%'', S '' '',
              S ''nice'', S ''='', F2 (100 * of_int (ds ! 1) / of_int (sum_list ds)), S ''%'', S '' '',
              S ''irq'', S ''='', F2 (100 * of_int (ds ! 5) / of_int (sum_list ds)), S ''%'', S '' '',
              S ''softirq'', S ''='', F2 (100 * of_int (ds ! 6) / of_int (sum_list ds)), S ''%'', S '' '',
              S ''steal'', S ''='',
              F2 (if 8 \<le> length ds then 100 * of_int (ds ! 7) / of_int (sum_list ds) else 0), S ''%'']]"
proof -
  have p: "cpu_pcts old (proc_stat s) = Inr [''user'' \<mapsto> 100 * of_int (ds ! 0) / of_int (sum_list ds),
          ''nice'' \<mapsto> 100 * of_int (ds ! 1) / of_int (sum_list ds),
          ''system'' \<mapsto> 100 * of_int (ds ! 2) / of_int (sum_list ds),
          ''idle'' \<mapsto> 100 * of_int (ds ! 3) / of_int (sum_list ds),
          ''iowait'' \<mapsto> 100 * of_int (ds ! 4) / of_int (sum_list ds),
          ''irq'' \<mapsto> 100 * of_int (ds ! 5) / of_int (sum_list ds),
          ''softirq'' \<mapsto> 100 * of_int (ds ! 6) / of_int (sum_list ds),
          ''steal'' \<mapsto> (if 8 \<le> length ds then 100 * of_int (ds ! 7) / of_int (sum_list ds) else 0),
          ''cpu'' \<mapsto> 100 - 100 * of_int (ds ! 3) / of_int (sum_list ds)]"
    using cpu_pcts_eq [of old "proc_stat s"] assms(2-4) by simp
  show ?thesis
    unfolding check_cpu_def assms(1) option.case prod.case Let_def p
    by (simp add: finish_def rbind_def key_def thresholds_def pct_token_def status_line_def
          strip_def)
qed

text \<open>
  Claim C6. In the cpu probe each field's percentage is \<open>100 - 100 * (total - delta) / total\<close>,
  which is \<open>100 * delta / total\<close> with \<open>total\<close> the sum of all deltas of the line, and the busy
  value \<open>cpu\<close> is 100 minus the idle percentage; with a total of 90 and an idle delta of 20
  it is 700/9.
\<close>

theorem cpu_percent_of_total:
  "interim s ''proc_stat'' = Some (mtime, old) \<and> ds = cpu_deltas old (proc_stat s) \<and>
   sum_list ds \<noteq> 0 \<and> 7 \<le> length ds \<longrightarrow>
   cpu_percents ds = Inr (map (\<lambda>x. 100 - 100 * (of_int (sum_list ds - x) / of_int (sum_list ds))) ds) \<and>
   cpu_percents ds = Inr (map (\<lambda>x. 100 * of_int x / of_int (sum_list ds)) ds) \<and>
   (\<exists>d. cpu_pcts old (proc_stat s) = Inr d \<and>
        d ''idle'' = Some (100 * of_int (ds ! 3) / of_int (sum_list ds)) \<and>
        d ''cpu'' = Some (100 - 100 * of_int (ds ! 3) / of_int (sum_list ds)) \<and>
        (sum_list ds = 90 \<and> ds ! 3 = 20 \<longrightarrow> d ''cpu'' = Some (700 / 9))) \<and>
   (\<exists>rest. fst (check_cpu s None None) =
        Exit 0 [S ''CPU Usage: '' # F2 (100 - 100 * of_int (ds ! 3) / of_int (sum_list ds)) # rest])"
proof (intro impI, elim conjE)
  assume snap: "interim s ''proc_stat'' = Some (mtime, old)"
    and ds: "ds = cpu_deltas old (proc_stat s)" and nz: "sum_list ds \<noteq> 0" and len: "7 \<le> length ds"
  have a: "cpu_percents ds = Inr (map (\<lambda>x. 100 - 100 * (of_int (sum_list ds - x) / of_int (sum_list ds))) ds)"
    using nz by (simp add: cpu_percents_def Let_def)
  have b: "cpu_percents ds = Inr (map (\<lambda>x. 100 * of_int x / of_int (sum_list ds)) ds)"
    using nz by (rule cpu_percents_eq)
  have c: "\<exists>d. cpu_pcts old (proc_stat s) = Inr d \<and>
        d ''idle'' = Some (100 * of_int (ds ! 3) / of_int (sum_list ds)) \<and>
        d ''cpu'' = Some (100 - 100 * of_int (ds ! 3) / of_int (sum_list ds)) \<and>
        (sum_list ds = 90 \<and> ds ! 3 = 20 \<longrightarrow> d ''cpu'' = Some (700 / 9))"
    using cpu_pcts_eq [of old "proc_stat s"] nz len unfolding ds by simp
  have d: "\<exists>rest. fst (check_cpu s None None) =
        Exit 0 [S ''CPU Usage: '' # F2 (100 - 100 * of_int (ds ! 3) / of_int (sum_list ds)) # rest]"
    unfolding check_cpu_report [OF snap ds nz len] by blast
  from a b c d show "cpu_percents ds = Inr (map (\<lambda>x. 100 - 100 * (of_int (sum_list ds - x) / of_int (sum_list ds))) ds) \<and>
   cpu_percents ds = Inr (map (\<lambda>x. 100 * of_int x / of_int (sum_list ds)) ds) \<and>
   (\<exists>d. cpu_pcts old (proc_stat s) = Inr d \<and>
        d ''idle'' = Some (100 * of_int (ds ! 3) / of_int (sum_list ds)) \<and>
        d ''cpu'' = Some (100 - 100 * of_int (ds ! 3) / of_int (sum_list ds)) \<and>
        (sum_list ds = 90 \<and> ds ! 3 = 20 \<longrightarrow> d ''cpu'' = Some (700 / 9))) \<and>
   (\<exists>rest. fst (check_cpu s None None) =
        Exit 0 [S ''CPU Usage: '' # F2 (100 - 100 * of_int (ds ! 3) / of_int (sum_list ds)) # rest])"
    by blast
qed

theorem cpu_percent_of_total_witness:
  "interim cpu_sampled ''proc_stat'' = Some (999, [(''cpu'', [100, 0, 50, 850, 0, 0, 0, 0])]) \<and>
   cpu_deltas [(''cpu'', [100, 0, 50, 850, 0, 0, 0, 0])] (proc_stat cpu_sampled) = [50, 0, 20, 20, 0, 0, 0, 0] \<and>
   sum_list [50, 0, 20, 20, 0, 0, 0, 0 :: int] = 90 \<and>
   cpu_percents [50, 0, 20, 20, 0, 0, 0, 0] = Inr [500 / 9, 0, 200 / 9, 200 / 9, 0, 0, 0, 0] \<and>
   (\<exists>rest. fst (check_cpu cpu_sampled None None) = Exit 0 [S ''CPU Usage: '' # F2 (700 / 9) # rest])"
  using cpu_percent_of_total
    [of cpu_sampled 999 "[(''cpu'', [100, 0, 50, 850, 0, 0, 0, 0])]" "[50, 0, 20, 20, 0, 0, 0, 0]"]
  by (simp add: cpu_sampled_def demo_host_def cpu_deltas_def first_fields_def)

lemma py_float_5: "py_float ''5'' = Inr 5"
  by (simp add: py_float_def unsigned_part_def digit_val_def)

lemma py_float_10: "py_float ''10'' = Inr 10"
  by (simp add: py_float_def unsigned_part_def digit_val_def)


lemma check_diskio_resolved:
  assumes "resolves_to s dev device" and "find_line device (diskstats s) = Some proc_line"
  shows "check_diskio s dev warn crit =
     (case interim s (''proc_diskstats_'' @ replace_slash device) of
        None \<Rightarrow>
          (Exit 0 [[S ''This was the first run, run again to get values: diskio('',
                    S device, S '')'']],
           copyfile s (diskstats s) (''proc_diskstats_'' @ replace_slash device))
      | Some (mtime, old) \<Rightarrow>
          finish s (diskstats s) (''proc_diskstats_'' @ replace_slash device)
            (diskio_report s dev device proc_line mtime old warn crit))"
  using assms by (cases "startswith dev ''/''") (simp_all add: check_diskio_def resolves_to_def Let_def split: option.split)

text \<open>
  Claim C7, as amended. A delta-based probe that finds no stored sample for its stream
  stores the current content of its counter file under the stream's name (one new file,
  stamped with the current time), prints the first-run message and exits with 0, whatever
  warn and crit are. For the disk probe this holds when the device argument resolves and
  the device is listed in \<^verbatim>\<open>/proc/diskstats\<close>: the probe looks the device up first.
\<close>

theorem first_run_bootstrap:
  "(interim s ''proc_stat'' = None \<longrightarrow>
      check_cpu s warn crit =
        (Exit 0 [[S ''This was the first run, run again to get values'']],
         (interim s)(''proc_stat'' \<mapsto> (clock s, proc_stat s)))) \<and>
   (interim s ''proc_stat_processes'' = None \<longrightarrow>
      check_procs s warns crits =
        (Exit 0 [[S ''This was the first run, run again to get values'']],
         (interim s)(''proc_stat_processes'' \<mapsto> (clock s, proc_stat s)))) \<and>
   (interim s (''proc_net_dev_'' @ interface) = None \<longrightarrow>
      check_net s interface warns crits =
        (Exit 0 [[S ''This was the first run, run again to get values: net:'', S interface]],
         (interim s)(''proc_net_dev_'' @ interface \<mapsto> (clock s, net_dev s)))) \<and>
   (resolves_to s dev device \<and> find_line device (diskstats s) \<noteq> None \<and>
    interim s (''proc_diskstats_'' @ replace_slash device) = None \<longrightarrow>
      check_diskio s dev warns crits =
        (Exit 0 [[S ''This was the first run, run again to get values: diskio('', S device, S '')'']],
         (interim s)(''proc_diskstats_'' @ replace_slash device \<mapsto> (clock s, diskstats s))))"
proof (intro conjI impI)
  show "check_cpu s warn crit =
        (Exit 0 [[S ''This was the first run, run again to get values'']],
         (interim s)(''proc_stat'' \<mapsto> (clock s, proc_stat s)))"
    if "interim s ''proc_stat'' = None"
    using that by (simp add: check_cpu_def copyfile_def)
  show "check_procs s warns crits =
        (Exit 0 [[S ''This was the first run, run again to get values'']],
         (interim s)(''proc_stat_processes'' \<mapsto> (clock s, proc_stat s)))"
    if "interim s ''proc_stat_processes'' = None"
    using that by (simp add: check_procs_def copyfile_def)
  show "check_net s interface warns crits =
        (Exit 0 [[S ''This was the first run, run again to get values: net:'', S interface]],
         (interim s)(''proc_net_dev_'' @ interface \<mapsto> (clock s, net_dev s)))"
    if "interim s (''proc_net_dev_'' @ interface) = None"
    using that by (simp add: check_net_def copyfile_def Let_def)
  show "check_diskio s dev warns crits =
        (Exit 0 [[S ''This was the first run, run again to get values: diskio('', S device, S '')'']],
         (interim s)(''proc_diskstats_'' @ replace_slash device \<mapsto> (clock s, diskstats s)))"
    if "resolves_to s dev device \<and> find_line device (diskstats s) \<noteq> None \<and>
        interim s (''proc_diskstats_'' @ replace_slash device) = None"
  proof -
    from that have r: "resolves_to s dev device"
      and n: "interim s (''proc_diskstats_'' @ replace_slash device) = None" by simp_all
    from that obtain pl where pl: "find_line device (diskstats s) = Some pl" by auto
    show ?thesis
      unfolding check_diskio_resolved [OF r pl] n by (simp add: copyfile_def)
  qed
qed

theorem first_run_bootstrap_witness:
  "interim demo_host ''proc_stat'' = None \<and>
   interim demo_host ''proc_stat_processes'' = None \<and>
   interim demo_host (''proc_net_dev_'' @ ''eth0'') = None \<and>
   resolves_to demo_host ''sda'' ''sda'' \<and> find_line ''sda'' (diskstats demo_host) \<noteq> None \<and>
   interim demo_host (''proc_diskstats_'' @ replace_slash ''sda'') = None \<and>
   check_cpu demo_host (Some ''80'') (Some ''90'') =
     (Exit 0 [[S ''This was the first run, run again to get values'']],
      [''proc_stat'' \<mapsto> (1000, [(''cpu'', [150, 0, 70, 870, 0, 0, 0, 0]), (''processes'', [5000])])]) \<and>
   check_procs demo_host None None =
     (Exit 0 [[S ''This was the first run, run again to get values'']],
      [''proc_stat_processes'' \<mapsto> (1000, [(''cpu'', [150, 0, 70, 870, 0, 0, 0, 0]), (''processes'', [5000])])]) \<and>
   check_net demo_host ''eth0'' None None =
     (Exit 0 [[S ''This was the first run, run again to get values: net:'', S ''eth0'']],
      [''proc_net_dev_eth0'' \<mapsto>
         (1000, [(''eth0'', [2097152, 100, 0, 0, 0, 0, 0, 0, 1048576, 50, 0, 0, 0, 0, 0, 0])])]) \<and>
   check_diskio demo_host ''sda'' None None =
     (Exit 0 [[S ''This was the first run, run again to get values: diskio('', S ''sda'', S '')'']],
      [''proc_diskstats_sda'' \<mapsto> (1000, [(''sda'', [100, 0, 800, 10, 50, 0, 400, 5])])])"
  using first_run_bootstrap
    [of demo_host "Some ''80''" "Some ''90''" None None "''eth0''" "''sda''" "''sda''"]
  by (simp add: demo_host_def resolves_to_def startswith_def find_line_def replace_slash_def)

theorem diskio_missing_device_no_bootstrap:
  "interim demo_host (''proc_diskstats_'' @ replace_slash ''sdz'') = None \<and>
   check_diskio demo_host ''sdz'' None None =
     (Exit 3 [[S ''Plugin Error: Block device not found: ('', S ''sdz'', S '')'']], Map.empty)"
  by (simp add: check_diskio_def demo_host_def startswith_def find_line_def Let_def)

lemma tally_sum_count_state: "tally_sum (count_state e p) = tally_sum p + length (snd e)"
  by (simp add: count_state_def tally_sum_def Let_def)

lemma tally_sum_fold:
  "tally_sum (fold count_state sp p) = tally_sum p + tracked sp"
  by (induction sp arbitrary: p) (simp_all add: tracked_def tally_sum_count_state)

lemma tally_sum_count_states: "tally_sum (count_states sp) = tracked sp"
  by (simp add: count_states_def tally_sum_fold) (simp add: tally_sum_def)

lemma tracked_append_state: "tracked (append_state sp st comm) = tracked sp + 1"
  by (induction sp st comm rule: append_state.induct) (simp_all add: tracked_def)

lemma walk_proc_counts:
  "walk_proc dirs n sp = Inr (n', sp') \<Longrightarrow>
   n' + tracked sp = n + tracked sp' + length (vanished dirs)"
proof (induction dirs arbitrary: n sp)
  case Nil
  then show ?case by (simp add: vanished_def)
next
  case (Cons e dirs)
  obtain d stat where e: "e = (d, stat)" by (cases e)
  show ?case
  proof (cases "isdigit d")
    case False
    with Cons e show ?thesis by (simp add: vanished_def)
  next
    case True
    show ?thesis
    proof (cases stat)
      case None
      with Cons.prems e True have "walk_proc dirs (n + 1) sp = Inr (n', sp')" by simp
      from Cons.IH [OF this] e True None show ?thesis by (simp add: vanished_def)
    next
      case (Some toks)
      with Cons.prems e True obtain st where
        w: "walk_proc dirs (n + 1) (append_state sp st (take 2 (drop 1 toks) ! 0)) = Inr (n', sp')"
        by (auto simp: Let_def split: sum.splits)
      from Cons.IH [OF w] e True Some show ?thesis
        by (simp add: vanished_def tracked_append_state)
    qed
  qed
qed

text \<open>
  Claim C9. In the procs probe a numeric entry of \<^verbatim>\<open>/proc\<close> whose \<^verbatim>\<open>stat\<close> file cannot be
  read is counted in the total and in no state, so the total is the sum of the five state
  tallies plus the number of such entries: it is never below the sum, and equal to it
  exactly when every numeric entry could be read.
\<close>

theorem procs_total_covers_states:
  "walk_proc dirs 0 [] = Inr (p_total, states_procs) \<and> p = count_states states_procs \<longrightarrow>
   p_total = running p + sleeping p + waiting p + zombie p + others p + length (vanished dirs) \<and>
   p_total \<ge> running p + sleeping p + waiting p + zombie p + others p \<and>
   (p_total = running p + sleeping p + waiting p + zombie p + others p \<longleftrightarrow>
      (\<forall>e \<in> set dirs. isdigit (fst e) \<longrightarrow> snd e \<noteq> None))"
proof (intro impI, elim conjE)
  assume w: "walk_proc dirs 0 [] = Inr (p_total, states_procs)" and p: "p = count_states states_procs"
  have "p_total = tracked states_procs + length (vanished dirs)"
    using walk_proc_counts [OF w] by (simp add: tracked_def)
  then have eq: "p_total = running p + sleeping p + waiting p + zombie p + others p + length (vanished dirs)"
    using tally_sum_count_states [of states_procs] p by (simp add: tally_sum_def)
  have "(length (vanished dirs) = 0) = (\<forall>e \<in> set dirs. isdigit (fst e) \<longrightarrow> snd e \<noteq> None)"
    by (auto simp: vanished_def filter_empty_conv)
  with eq show "p_total = running p + sleeping p + waiting p + zombie p + others p + length (vanished dirs) \<and>
   p_total \<ge> running p + sleeping p + waiting p + zombie p + others p \<and>
   (p_total = running p + sleeping p + waiting p + zombie p + others p \<longleftrightarrow>
      (\<forall>e \<in> set dirs. isdigit (fst e) \<longrightarrow> snd e \<noteq> None))"
    by auto
qed

lemma isdigit_examples:
  "isdigit ''1''" "isdigit ''42''" "isdigit ''77''" "\<not> isdigit ''self''"
  by (simp_all add: isdigit_def digit_val_def)

theorem procs_total_covers_states_witness:
  "walk_proc (proc_dirs demo_host) 0 [] = Inr (3, [(''S'', [''(init)'']), (''R'', [''(sh)''])]) \<and>
   count_states [(''S'', [''(init)'']), (''R'', [''(sh)''])] =
     \<lparr>running = 1, sleeping = 1, waiting = 0, zombie = 0, others = 0\<rparr> \<and>
   vanished (proc_dirs demo_host) = [(''77'', None)] \<and>
   (3::nat) = 1 + 1 + 0 + 0 + 0 + length (vanished (proc_dirs demo_host)) \<and>
   \<not> (\<forall>e \<in> set (proc_dirs demo_host). isdigit (fst e) \<longrightarrow> snd e \<noteq> None)"
  using procs_total_covers_states
    [of "proc_dirs demo_host" 3 "[(''S'', [''(init)'']), (''R'', [''(sh)''])]"
        "\<lparr>running = 1, sleeping = 1, waiting = 0, zombie = 0, others = 0\<rparr>"]
  by (simp add: demo_host_def isdigit_examples idx_def count_states_def count_state_def vanished_def)

lemma py_float_empty: "py_float [] = Inl ValueError"
  by (simp add: py_float_def unsigned_part_def)

lemma severity_le_2: "severity v w c \<le> 2"
  by (simp add: severity_def)

lemma parsed_nth:
  "map py_float xs = map Inr ys \<Longrightarrow> i < length ys \<Longrightarrow>
   py_float (xs ! i) = Inr (ys ! i) \<and> xs ! i \<noteq> [] \<and> i < length xs"
proof -
  assume m: "map py_float xs = map Inr ys" and i: "i < length ys"
  from m have len: "length xs = length ys" by (metis length_map)
  with i have "map py_float xs ! i = py_float (xs ! i)" by simp
  moreover from i have "map Inr ys ! i = (Inr (ys ! i) :: rat res)" by simp
  ultimately have p: "py_float (xs ! i) = Inr (ys ! i)" using m by simp
  then have "xs ! i \<noteq> []" using py_float_empty by auto
  with p len i show ?thesis by simp
qed

lemma classify_each_fold:
  assumes w: "map py_float warn = map Inr ws" and c: "map py_float crit = map Inr cs"
    and len: "length ws = length cs"
  shows "\<forall>i \<in> set js. i < length ws \<and> i < length vals \<Longrightarrow> c0 \<le> 2 \<Longrightarrow>
         classify_each note vals warn crit js (c0, outp) =
           Inr (fold max (map (sev_at vals ws cs) js) c0,
                outp @ concat (map (\<lambda>i. note (sev_at vals ws cs i) i) js))"
proof (induction js arbitrary: c0 outp)
  case Nil
  then show ?case by simp
next
  case (Cons i js)
  from Cons.prems have i: "i < length ws" "i < length vals" "i < length cs" using len by simp_all
  note pw = parsed_nth [OF w i(1)] and pc = parsed_nth [OF c i(3)]
  have rest: "\<forall>j \<in> set js. j < length ws \<and> j < length vals" using Cons.prems by simp
  show ?case
  proof (cases "vals ! i \<ge> cs ! i")
    case True
    then have s: "sev_at vals ws cs i = 2" by (simp add: sev_at_def severity_def)
    have m: "max 2 c0 = 2" using Cons.prems(2) by simp
    show ?thesis
      using True pw pc i Cons.IH [OF rest, of 2 "outp @ note 2 i"]
      by (simp add: idx_def s m)
  next
    case False
    show ?thesis
    proof (cases "vals ! i \<ge> ws ! i")
      case True
      with False have s: "sev_at vals ws cs i = 1" by (simp add: sev_at_def severity_def)
      show ?thesis
      proof (cases "c0 = 0")
        case c0: True
        show ?thesis
          using True False pw pc i c0 Cons.IH [OF rest, of 1 "outp @ note 1 i"]
          by (simp add: idx_def s)
      next
        case c0: False
        then have m: "max (Suc 0) c0 = c0" by simp
        show ?thesis
          using True False pw pc i c0 Cons.IH [OF rest Cons.prems(2), of "outp @ note 1 i"]
          by (simp add: idx_def s m)
      qed
    next
      case nw: False
      with False have s: "sev_at vals ws cs i = 0" by (simp add: sev_at_def severity_def)
      show ?thesis
        using nw False pw pc i Cons.IH [OF rest Cons.prems(2), of "outp @ note 0 i"]
        by (simp add: idx_def s)
    qed
  qed
qed

lemma classify_each_max:
  assumes "map py_float warn = map Inr ws" and "map py_float crit = map Inr cs"
    and "length ws = length cs" and "length ws \<le> length vals"
  shows "classify_each note vals warn crit [0..<length warn] (0, outp) =
           Inr (max_severity vals ws cs,
                outp @ concat (map (\<lambda>i. note (sev_at vals ws cs i) i) [0..<length ws]))"
proof -
  have l: "length warn = length ws" using assms(1) by (metis length_map)
  have "classify_each note vals warn crit [0..<length ws] (0, outp) =
           Inr (fold max (map (sev_at vals ws cs) [0..<length ws]) 0,
                outp @ concat (map (\<lambda>i. note (sev_at vals ws cs i) i) [0..<length ws]))"
    using assms(4) by (intro classify_each_fold [OF assms(1-3)]) auto
  then show ?thesis
    unfolding max_severity_def Max.set_eq_fold l by simp
qed

lemma load_perfdata_ok:
  "length warn = length crit \<Longrightarrow> \<exists>r. load_perfdata (Some (warn, crit)) seq xs = Inr r"
proof (induction xs arbitrary: seq)
  case Nil
  then show ?case by simp
next
  case (Cons a xs)
  obtain x v where a: "a = (x, v)" by (cases a)
  from Cons.IH [OF Cons.prems, of "seq + 1"] obtain r where
    r: "load_perfdata (Some (warn, crit)) (seq + 1) xs = Inr r" by blast
  show ?case using r Cons.prems by (simp add: a rbind_def idx_def)
qed

lemma procs_perfdata_ok:
  "length warn = length crit \<Longrightarrow> \<exists>r. procs_perfdata (Some (warn, crit)) seq xs = Inr r"
proof (induction xs arbitrary: seq)
  case Nil
  then show ?case by simp
next
  case (Cons a xs)
  obtain x v where a: "a = (x, v)" by (cases a)
  from Cons.IH [OF Cons.prems, of "seq + 1"] obtain r1 where
    r1: "procs_perfdata (Some (warn, crit)) (seq + 1) xs = Inr r1" by blast
  from Cons.IH [OF Cons.prems, of seq] obtain r0 where
    r0: "procs_perfdata (Some (warn, crit)) seq xs = Inr r0" by blast
  show ?case using r0 r1 Cons.prems by (simp add: a rbind_def idx_def)
qed

lemma check_load_max:
  assumes w: "map py_float warn = map Inr ws" and c: "map py_float crit = map Inr cs"
    and len: "length ws = length cs" and le3: "length ws \<le> 3"
    and avgs: "3 \<le> length (fst (proc_loadavg s))"
  shows "\<exists>perfdata. check_load s (Some warn) (Some crit) =
           Exit (max_severity (take 3 (fst (proc_loadavg s))) ws cs)
             [status_line
                ([S ''Load1: '', F2 (fst (proc_loadavg s) ! 0), S '' Load5: '',
                  F2 (fst (proc_loadavg s) ! 1), S '' Load15: '', F2 (fst (proc_loadavg s) ! 2)]
                 @ concat (map (\<lambda>i. load_note (sev_at (take 3 (fst (proc_loadavg s))) ws cs i) i)
                             [0..<length ws]))
                perfdata]"
proof -
  have l: "length warn = length crit" using w c len by (metis length_map)
  obtain r where r: "load_perfdata (Some (warn, crit)) 0
      [(''load1'', fst (proc_loadavg s) ! 0), (''load5'', fst (proc_loadavg s) ! 1),
       (''load15'', fst (proc_loadavg s) ! 2)] = Inr r"
    using load_perfdata_ok [OF l] by blast
  have v: "length ws \<le> length (take 3 (fst (proc_loadavg s)))" using le3 avgs by simp
  show ?thesis
    using avgs r
    by (auto simp add: check_load_def Let_def rbind_def idx_def tuple_thresholds_def
          classify_each_max [OF w c len v] simp del: load_perfdata.simps)
qed

lemma procs_report_max:
  assumes w: "map py_float warn = map Inr ws" and c: "map py_float crit = map Inr cs"
    and len: "length ws = length cs" and le3: "length ws \<le> 3"
    and t: "clock s \<noteq> mtime"
    and cf: "scan_processes (\<lambda>v. v) (proc_stat s) 0 = Inr curr_forks"
    and fk: "scan_processes (\<lambda>v. curr_forks - v) old 0 = Inr forks"
    and wk: "walk_proc (proc_dirs s) 0 [] = Inr (p_total, states_procs)"
    and p: "p = count_states states_procs"
    and vals: "vals = [of_nat p_total, of_nat (running p), of_nat (waiting p)]"
  shows "\<exists>perfdata. procs_report s mtime old (Some warn) (Some crit) =
           Inr (max_severity vals ws cs,
                status_line
                  ([S ''Total: '', D (int p_total), S '' Running: '', D (int (running p)),
                    S '' Sleeping: '', D (int (sleeping p)), S '' Waiting: '', D (int (waiting p)),
                    S '' Zombie: '', D (int (zombie p)), S '' Others: '', D (int (others p)),
                    S '' New_Forks: '', F2 (of_int forks / (clock s - mtime)), S ''/s'']
                   @ concat (map (\<lambda>i. procs_note (sev_at vals ws cs i) i) [0..<length ws]))
                  perfdata)"
proof -
  have l: "length warn = length crit" using w c len by (metis length_map)
  obtain r where r: "procs_perfdata (Some (warn, crit)) 0
      [(''total'', of_nat p_total), (''forks'', of_int forks / (clock s - mtime)),
       (''sleeping'', of_nat (sleeping p)), (''running'', of_nat (running p)),
       (''waiting'', of_nat (waiting p)), (''zombie'', of_nat (zombie p)),
       (''others'', of_nat (others p))] = Inr r"
    using procs_perfdata_ok [OF l] by blast
  have v: "length ws \<le> length vals" using le3 vals by simp
  show ?thesis
    using t r
    by (auto simp add: procs_report_def Let_def rbind_def cf fk wk p [symmetric]
          tuple_thresholds_def classify_each_max [OF w c len v, unfolded vals]
          vals simp del: procs_perfdata.simps)
qed

lemma only_running_critical:
  assumes "length ws = 3" and "vals ! 0 < cs ! 0" and "cs ! 1 \<le> vals ! 1" and "vals ! 2 < cs ! 2"
  shows "max_severity vals ws cs = 2"
    and "concat (map (\<lambda>i. procs_note (sev_at vals ws cs i) i) [0..<length ws]) =
           procs_note (sev_at vals ws cs 0) 0 @ [S '' (Critical '', S ''running'', S '')'']
           @ procs_note (sev_at vals ws cs 2) 2"
    and "sev_at vals ws cs 0 < 2" and "sev_at vals ws cs 2 < 2"
proof -
  have u: "[0..<length ws] = [0, 1, 2]" using assms(1) by (simp add: upt_rec)
  have s1: "sev_at vals ws cs (Suc 0) = 2" using assms(3) by (simp add: sev_at_def severity_def)
  show s0: "sev_at vals ws cs 0 < 2" using assms(2) by (simp add: sev_at_def severity_def)
  show s2: "sev_at vals ws cs 2 < 2" using assms(4) by (simp add: sev_at_def severity_def)
  show "max_severity vals ws cs = 2"
    using s0 s2 by (simp add: max_severity_def u s1)
  show "concat (map (\<lambda>i. procs_note (sev_at vals ws cs i) i) [0..<length ws]) =
           procs_note (sev_at vals ws cs 0) 0 @ [S '' (Critical '', S ''running'', S '')'']
           @ procs_note (sev_at vals ws cs 2) 2"
    by (simp add: u s1) (simp add: procs_note_def param_def)
qed

text \<open>
  Claim C5. In the load and procs probes the exit code is the maximum severity over the
  sub-metrics of the threshold tuple, and every sub-metric is annotated in order, so the
  loop goes on after a CRITICAL and nothing after it lowers the code. For procs, when only
  \<open>running\<close> reaches its critical bound, the code is 2 and the status text carries
  \<^verbatim>\<open>(Critical running)\<close> between the annotations of \<open>total\<close> and \<open>waiting\<close>.
\<close>

theorem severity_is_maximum:
  "map py_float warn = map Inr ws \<and> map py_float crit = map Inr cs \<and>
   length ws = length cs \<and> length ws \<le> 3 \<longrightarrow>
   (3 \<le> length (fst (proc_loadavg s)) \<longrightarrow>
      (\<exists>perfdata. check_load s (Some warn) (Some crit) =
         Exit (max_severity (take 3 (fst (proc_loadavg s))) ws cs)
           [status_line
              ([S ''Load1: '', F2 (fst (proc_loadavg s) ! 0), S '' Load5: '',
                F2 (fst (proc_loadavg s) ! 1), S '' Load15: '', F2 (fst (proc_loadavg s) ! 2)]
               @ concat (map (\<lambda>i. load_note (sev_at (take 3 (fst (proc_loadavg s))) ws cs i) i)
                           [0..<length ws]))
              perfdata])) \<and>
   (interim s ''proc_stat_processes'' = Some (mtime, old) \<and> clock s \<noteq> mtime \<and>
    scan_processes (\<lambda>v. v) (proc_stat s) 0 = Inr curr_forks \<and>
    scan_processes (\<lambda>v. curr_forks - v) old 0 = Inr forks \<and>
    walk_proc (proc_dirs s) 0 [] = Inr (p_total, states_procs) \<and>
    p = count_states states_procs \<and>
    vals = [of_nat p_total, of_nat (running p), of_nat (waiting p)] \<longrightarrow>
      (\<exists>perfdata. fst (check_procs s (Some warn) (Some crit)) =
         Exit (max_severity vals ws cs)
           [status_line
              ([S ''Total: '', D (int p_total), S '' Running: '', D (int (running p)),
                S '' Sleeping: '', D (int (sleeping p)), S '' Waiting: '', D (int (waiting p)),
                S '' Zombie: '', D (int (zombie p)), S '' Others: '', D (int (others p)),
                S '' New_Forks: '', F2 (of_int forks / (clock s - mtime)), S ''/s'']
               @ concat (map (\<lambda>i. procs_note (sev_at vals ws cs i) i) [0..<length ws]))
              perfdata]) \<and>
      (length ws = 3 \<and> vals ! 0 < cs ! 0 \<and> cs ! 1 \<le> vals ! 1 \<and> vals ! 2 < cs ! 2 \<longrightarrow>
         max_severity vals ws cs = 2 \<and>
         concat (map (\<lambda>i. procs_note (sev_at vals ws cs i) i) [0..<length ws]) =
           procs_note (sev_at vals ws cs 0) 0 @ [S '' (Critical '', S ''running'', S '')'']
           @ procs_note (sev_at vals ws cs 2) 2 \<and>
         sev_at vals ws cs 0 < 2 \<and> sev_at vals ws cs 2 < 2))"
proof (intro impI conjI; (elim conjE)?)
  assume w: "map py_float warn = map Inr ws" and c: "map py_float crit = map Inr cs"
    and len: "length ws = length cs" and le3: "length ws \<le> 3"
  {
    assume "3 \<le> length (fst (proc_loadavg s))"
    from check_load_max [OF w c len le3 this]
    show "\<exists>perfdata. check_load s (Some warn) (Some crit) =
         Exit (max_severity (take 3 (fst (proc_loadavg s))) ws cs)
           [status_line
              ([S ''Load1: '', F2 (fst (proc_loadavg s) ! 0), S '' Load5: '',
                F2 (fst (proc_loadavg s) ! 1), S '' Load15: '', F2 (fst (proc_loadavg s) ! 2)]
               @ concat (map (\<lambda>i. load_note (sev_at (take 3 (fst (proc_loadavg s))) ws cs i) i)
                           [0..<length ws]))
              perfdata]" .
  }
  {
    assume snap: "interim s ''proc_stat_processes'' = Some (mtime, old)" and t: "clock s \<noteq> mtime"
      and cf: "scan_processes (\<lambda>v. v) (proc_stat s) 0 = Inr curr_forks"
      and fk: "scan_processes (\<lambda>v. curr_forks - v) old 0 = Inr forks"
      and wk: "walk_proc (proc_dirs s) 0 [] = Inr (p_total, states_procs)"
      and p: "p = count_states states_procs"
      and vals: "vals = [of_nat p_total, of_nat (running p), of_nat (waiting p)]"
    from procs_report_max [OF w c len le3 t cf fk wk p vals] obtain perfdata where
      r: "procs_report s mtime old (Some warn) (Some crit) =
           Inr (max_severity vals ws cs,
                status_line
                  ([S ''Total: '', D (int p_total), S '' Running: '', D (int (running p)),
                    S '' Sleeping: '', D (int (sleeping p)), S '' Waiting: '', D (int (waiting p)),
                    S '' Zombie: '', D (int (zombie p)), S '' Others: '', D (int (others p)),
                    S '' New_Forks: '', F2 (of_int forks / (clock s - mtime)), S ''/s'']
                   @ concat (map (\<lambda>i. procs_note (sev_at vals ws cs i) i) [0..<length ws]))
                  perfdata)" by blast
    show "\<exists>perfdata. fst (check_procs s (Some warn) (Some crit)) =
         Exit (max_severity vals ws cs)
           [status_line
              ([S ''Total: '', D (int p_total), S '' Running: '', D (int (running p)),
                S '' Sleeping: '', D (int (sleeping p)), S '' Waiting: '', D (int (waiting p)),
                S '' Zombie: '', D (int (zombie p)), S '' Others: '', D (int (others p)),
                S '' New_Forks: '', F2 (of_int forks / (clock s - mtime)), S ''/s'']
               @ concat (map (\<lambda>i. procs_note (sev_at vals ws cs i) i) [0..<length ws]))
              perfdata]"
      unfolding check_procs_def snap option.case prod.case r finish_def sum.case
      by (intro exI [of _ perfdata]) simp
  }
  {
    assume a: "length ws = 3" "vals ! 0 < cs ! 0" "cs ! 1 \<le> vals ! 1" "vals ! 2 < cs ! 2"
    show "max_severity vals ws cs = 2" by (rule only_running_critical(1) [OF a])
    show "concat (map (\<lambda>i. procs_note (sev_at vals ws cs i) i) [0..<length ws]) =
           procs_note (sev_at vals ws cs 0) 0 @ [S '' (Critical '', S ''running'', S '')'']
           @ procs_note (sev_at vals ws cs 2) 2" by (rule only_running_critical(2) [OF a])
    show "sev_at vals ws cs 0 < 2" by (rule only_running_critical(3) [OF a])
    show "sev_at vals ws cs 2 < 2" by (rule only_running_critical(4) [OF a])
  }
qed

lemma py_float_half: "py_float ''0.5'' = Inr (1 / 2)"
  by (simp add: py_float_def unsigned_part_def digit_val_def)

lemma py_float_1: "py_float ''1'' = Inr 1"
  by (simp add: py_float_def unsigned_part_def digit_val_def)

lemma py_float_20: "py_float ''20'' = Inr 20"
  by (simp add: py_float_def unsigned_part_def digit_val_def)

theorem severity_is_maximum_witness:
  "map py_float [''10'', ''0.5'', ''5''] = map Inr [10, 1 / 2, 5] \<and>
   map py_float [''20'', ''1'', ''10''] = map Inr [20, 1, 10] \<and>
   3 \<le> length (fst (proc_loadavg procs_sampled)) \<and>
   interim procs_sampled ''proc_stat_processes'' = Some (999, [(''processes'', [4990])]) \<and>
   clock procs_sampled \<noteq> 999 \<and>
   walk_proc (proc_dirs procs_sampled) 0 [] = Inr (3, [(''S'', [''(init)'']), (''R'', [''(sh)''])]) \<and>
   (\<exists>perfdata. check_load procs_sampled (Some [''10'', ''0.5'', ''5'']) (Some [''20'', ''1'', ''10'']) =
      Exit 0
        [status_line
           [S ''Load1: '', F2 (1 / 2), S '' Load5: '', F2 (1 / 4), S '' Load15: '', F2 (1 / 10),
            S '' (OK)'', S '' (OK)'', S '' (OK)'']
           perfdata]) \<and>
   (\<exists>perfdata. fst (check_procs procs_sampled (Some [''10'', ''0.5'', ''5'']) (Some [''20'', ''1'', ''10''])) =
      Exit 2
        [status_line
           [S ''Total: '', D 3, S '' Running: '', D 1, S '' Sleeping: '', D 1, S '' Waiting: '', D 0,
            S '' Zombie: '', D 0, S '' Others: '', D 0, S '' New_Forks: '', F2 10, S ''/s'',
            S '' (OK)'', S '' (Critical '', S ''running'', S '')'', S '' (OK)'']
           perfdata])"
  using severity_is_maximum
    [of "[''10'', ''0.5'', ''5'']" "[10, 1 / 2, 5]" "[''20'', ''1'', ''10'']" "[20, 1, 10]"
        procs_sampled 999 "[(''processes'', [4990])]" 5000 10 3
        "[(''S'', [''(init)'']), (''R'', [''(sh)''])]"
        "\<lparr>running = 1, sleeping = 1, waiting = 0, zombie = 0, others = 0\<rparr>"
        "[3, 1, 0]"]
  by (simp add: py_float_10 py_float_half py_float_5 py_float_20 py_float_1
        procs_sampled_def demo_host_def isdigit_def digit_val_def idx_def rbind_def
        count_states_def count_state_def
        max_severity_def sev_at_def severity_def procs_note_def load_note_def param_def)

lemma map_of_zip_longer:
  "x \<in> set ks \<Longrightarrow> length ks \<le> length vs \<Longrightarrow> \<exists>v. map_of (zip ks vs) x = Some v"
proof (induction ks arbitrary: vs)
  case Nil
  then show ?case by simp
next
  case (Cons k ks)
  then obtain v vs' where vs: "vs = v # vs'" by (cases vs) auto
  with Cons show ?case by auto
qed

lemma net_deltas_keys:
  assumes "net_deltas cur old = Inr (Some int_d)" and "x \<in> set net_fields"
  shows "\<exists>v. int_d x = Some v"
proof -
  from assms(1) obtain c prev where "cur = Some c" "old = Some prev"
    and len: "16 \<le> length c" "16 \<le> length prev"
    and d: "int_d = map_of (zip net_fields (map (\<lambda>(t, i). t - i) (zip c prev)))"
    by (auto simp: net_deltas_def split: option.splits if_splits)
  have "length net_fields \<le> length (map (\<lambda>(t, i). t - i) (zip c prev))"
    using len by (simp add: net_fields_def)
  from map_of_zip_longer [OF assms(2) this] d show ?thesis by simp
qed

lemma pk_errors_result:
  "\<forall>x \<in> set xs. \<exists>v. int_d x = Some v \<Longrightarrow>
   \<exists>pk code ann. pk_errors int_d xs (pk0, c0, outp) = Inr (pk, code, outp @ ann) \<and>
      pk0 \<le> pk \<and> (c0 = 2 \<longrightarrow> code = 2) \<and>
      ((\<exists>x \<in> set xs. \<exists>v. int_d x = Some v \<and> 0 < v) \<longrightarrow> pk0 < pk \<and> code = 2) \<and>
      ((\<forall>x \<in> set xs. \<forall>v. int_d x = Some v \<longrightarrow> v \<le> 0) \<longrightarrow> pk = pk0 \<and> code = c0 \<and> ann = [])"
proof (induction xs arbitrary: pk0 c0 outp)
  case Nil
  then show ?case by simp
next
  case (Cons x xs)
  then obtain v where v: "int_d x = Some v" by auto
  have rest: "\<forall>x \<in> set xs. \<exists>v. int_d x = Some v" using Cons.prems by simp
  show ?case
  proof (cases "0 < v")
    case True
    from Cons.IH [OF rest, of "pk0 + v" 2 "outp @ [S '' (Critical '', S x, S '':'', D v, S '')'']"]
    obtain pk code ann where
      r: "pk_errors int_d xs (pk0 + v, 2, outp @ [S '' (Critical '', S x, S '':'', D v, S '')'']) =
            Inr (pk, code, (outp @ [S '' (Critical '', S x, S '':'', D v, S '')'']) @ ann)"
      and b: "pk0 + v \<le> pk" "code = 2" by auto
    show ?thesis
      using True v r b
      by (intro exI [of _ pk] exI [of _ code]
            exI [of _ "[S '' (Critical '', S x, S '':'', D v, S '')''] @ ann"])
         (auto simp: key_def)
  next
    case False
    from Cons.IH [OF rest, of pk0 c0 outp]
    obtain pk code ann where
      r: "pk_errors int_d xs (pk0, c0, outp) = Inr (pk, code, outp @ ann)"
      and b: "pk0 \<le> pk" "c0 = 2 \<longrightarrow> code = 2"
        "(\<exists>x \<in> set xs. \<exists>v. int_d x = Some v \<and> 0 < v) \<longrightarrow> pk0 < pk \<and> code = 2"
        "(\<forall>x \<in> set xs. \<forall>v. int_d x = Some v \<longrightarrow> v \<le> 0) \<longrightarrow> pk = pk0 \<and> code = c0 \<and> ann = []"
      by blast
    show ?thesis
      using False v r b
      by (intro exI [of _ pk] exI [of _ code] exI [of _ ann]) (auto simp: key_def)
  qed
qed

lemma pair_perfdata_ok:
  assumes "\<forall>w c. wc = Some (w, c) \<longrightarrow> 2 \<le> length w \<and> 2 \<le> length c"
  shows "\<exists>r. pair_perfdata wc a b xs = Inr r"
proof (induction xs)
  case Nil
  then show ?case by simp
next
  case (Cons e xs)
  obtain x v where e: "e = (x, v)" by (cases e)
  from Cons obtain r where r: "pair_perfdata wc a b xs = Inr r" by blast
  have "\<exists>th. pair_bounds wc a b x = Inr th"
    using assms by (cases wc) (auto simp: pair_bounds_def rbind_def idx_def)
  then obtain th where "pair_bounds wc a b x = Inr th" by blast
  with r show ?case by (simp add: e rbind_def)
qed

lemma hard_errors_fields: "x \<in> set hard_errors \<Longrightarrow> x \<in> set net_fields"
  by (auto simp: hard_errors_def net_fields_def)

lemma tuple_thresholds_lengths:
  "(\<forall>w c. warn = Some w \<and> crit = Some c \<longrightarrow> 2 \<le> length w \<and> 2 \<le> length c) \<Longrightarrow>
   \<forall>w c. tuple_thresholds warn crit = Some (w, c) \<longrightarrow> 2 \<le> length w \<and> 2 \<le> length c"
  by (auto simp: tuple_thresholds_def split: option.splits)

lemma net_report_errors:
  assumes d: "net_deltas cur old = Inr (Some int_d)" and t: "clock s \<noteq> mtime"
    and x: "x \<in> set hard_errors" and v: "int_d x = Some v" and pos: "0 < v"
  shows "\<exists>status_outp. \<forall>warn crit.
           (\<forall>w c. warn = Some w \<and> crit = Some c \<longrightarrow> 2 \<le> length w \<and> 2 \<le> length c) \<longrightarrow>
           (\<exists>perfdata. net_report s interface int_d mtime warn crit =
                          Inr (2, status_line status_outp perfdata))"
proof -
  obtain rb where rb: "int_d ''r_bytes'' = Some rb"
    using net_deltas_keys [OF d, of "''r_bytes''"] by (auto simp: net_fields_def)
  obtain tb where tb: "int_d ''t_bytes'' = Some tb"
    using net_deltas_keys [OF d, of "''t_bytes''"] by (auto simp: net_fields_def)
  obtain rp where rp: "int_d ''r_packets'' = Some rp"
    using net_deltas_keys [OF d, of "''r_packets''"] by (auto simp: net_fields_def)
  obtain tp where tp: "int_d ''t_packets'' = Some tp"
    using net_deltas_keys [OF d, of "''t_packets''"] by (auto simp: net_fields_def)
  let ?p = "clock s - mtime"
  let ?base = "[S interface, S '' Rx: '', F2 (of_int rb / 1024 / 1024 / ?p), S '' MB/s ('',
                F2 (of_int rp / ?p), S '' p/s)'', S '' Tx: '', F2 (of_int tb / 1024 / 1024 / ?p),
                S '' MB/s ('', F2 (of_int tp / ?p), S '' p/s)'', S '' [t:'', F2 ?p, S '']'']"
  have keys: "\<forall>y \<in> set hard_errors. \<exists>u. int_d y = Some u"
    using net_deltas_keys [OF d] hard_errors_fields by blast
  from pk_errors_result [OF keys, of 0 0 ?base] x v pos
  obtain pk code ann where
    pe: "pk_errors int_d hard_errors (0, 0, ?base) = Inr (pk, code, ?base @ ann)"
    and pk: "0 < pk" and code: "code = 2" by blast
  show ?thesis
  proof (rule exI [of _ "?base @ ann"], intro allI impI)
    fix warn crit :: "string list option"
    assume "\<forall>w c. warn = Some w \<and> crit = Some c \<longrightarrow> 2 \<le> length w \<and> 2 \<le> length c"
    from pair_perfdata_ok [OF tuple_thresholds_lengths [OF this]]
    obtain r where r: "pair_perfdata (tuple_thresholds warn crit) ''RX_MBps'' ''TX_MBps''
        [(''RX_MBps'', of_int rb / 1024 / 1024 / ?p), (''RX_PKps'', of_int rp / ?p),
         (''TX_MBps'', of_int tb / 1024 / 1024 / ?p), (''TX_PKps'', of_int tp / ?p),
         (''PK_ERRORS'', of_int pk)] = Inr r" by blast
    have p0: "(clock s - mtime = 0) = False" using t by simp
    have pk0: "(pk = 0) = False" using pk by simp
    have "net_report s interface int_d mtime warn crit = Inr (2, status_line (?base @ ann) (strip r))"
    proof (cases "tuple_thresholds warn crit")
      case None
      show ?thesis
        unfolding net_report_def Let_def
        using r [unfolded None]
        by (simp only: None key_def rb tb rp tp option.case rbind_def sum.case p0 if_False pe
              prod.case code)
    next
      case (Some wc)
      obtain w c where wc: "wc = (w, c)" by (cases wc)
      show ?thesis
        unfolding net_report_def Let_def
        using r [unfolded Some wc]
        by (simp only: Some wc key_def rb tb rp tp option.case rbind_def sum.case p0 pk0 if_False pe
              prod.case code)
    qed
    then show "\<exists>perfdata. net_report s interface int_d mtime warn crit =
                 Inr (2, status_line (?base @ ann) perfdata)" by blast
  qed
qed

text \<open>
  Claim C4, as amended. In the network probe, when the delta of a hard-error counter
  (receive or transmit errors, drops, fifo overruns, frame errors, collisions, carrier
  loss) is positive, the exit code is 2 and the status text is the same whatever warn and
  crit are: the bandwidth bounds are not compared, not even converted.
\<close>

theorem network_errors_dominate:
  "interim s (''proc_net_dev_'' @ interface) = Some (mtime, old) \<and> clock s \<noteq> mtime \<and>
   net_deltas (find_line interface (net_dev s)) (find_line interface old) = Inr (Some int_d) \<and>
   x \<in> set hard_errors \<and> int_d x = Some v \<and> 0 < v \<longrightarrow>
   (\<exists>status_outp. \<forall>warn crit.
      (\<forall>w c. warn = Some w \<and> crit = Some c \<longrightarrow> 2 \<le> length w \<and> 2 \<le> length c) \<longrightarrow>
      (\<exists>perfdata. fst (check_net s interface warn crit) =
                     Exit 2 [status_line status_outp perfdata]))"
proof (intro impI, elim conjE)
  assume snap: "interim s (''proc_net_dev_'' @ interface) = Some (mtime, old)"
    and t: "clock s \<noteq> mtime"
    and d: "net_deltas (find_line interface (net_dev s)) (find_line interface old) = Inr (Some int_d)"
    and x: "x \<in> set hard_errors" and v: "int_d x = Some v" and pos: "0 < v"
  from net_report_errors [OF d t x v pos, of interface] obtain status_outp where
    r: "\<forall>warn crit.
           (\<forall>w c. warn = Some w \<and> crit = Some c \<longrightarrow> 2 \<le> length w \<and> 2 \<le> length c) \<longrightarrow>
           (\<exists>perfdata. net_report s interface int_d mtime warn crit =
                          Inr (2, status_line status_outp perfdata))" by blast
  show "\<exists>status_outp. \<forall>warn crit.
      (\<forall>w c. warn = Some w \<and> crit = Some c \<longrightarrow> 2 \<le> length w \<and> 2 \<le> length c) \<longrightarrow>
      (\<exists>perfdata. fst (check_net s interface warn crit) =
                     Exit 2 [status_line status_outp perfdata])"
  proof (rule exI [of _ status_outp], intro allI impI)
    fix warn crit :: "string list option"
    assume "\<forall>w c. warn = Some w \<and> crit = Some c \<longrightarrow> 2 \<le> length w \<and> 2 \<le> length c"
    with r obtain perfdata where
      "net_report s interface int_d mtime warn crit = Inr (2, status_line status_outp perfdata)"
      by blast
    then have "fst (check_net s interface warn crit) = Exit 2 [status_line status_outp perfdata]"
      unfolding check_net_def Let_def snap option.case prod.case d sum.case finish_def
      by simp
    then show "\<exists>perfdata. fst (check_net s interface warn crit) =
                 Exit 2 [status_line status_outp perfdata]" by blast
  qed
qed

lemma net_sampled_deltas:
  "net_deltas (find_line ''eth0'' (net_dev net_sampled))
     (find_line ''eth0'' [(''eth0'', [1048576, 50, 0, 0, 0, 0, 0, 0, 0, 0, 0, 0, 0, 0, 0, 0])]) =
   Inr (Some (map_of (zip net_fields [1048576, 50, 0, 3, 0, 0, 0, 0, 1048576, 50, 0, 0, 0, 0, 0, 0])))"
  by (simp add: net_deltas_def find_line_def net_sampled_def)

theorem network_errors_dominate_witness:
  "interim net_sampled (''proc_net_dev_'' @ ''eth0'') =
     Some (999, [(''eth0'', [1048576, 50, 0, 0, 0, 0, 0, 0, 0, 0, 0, 0, 0, 0, 0, 0])]) \<and>
   clock net_sampled \<noteq> 999 \<and>
   ''r_drop'' \<in> set hard_errors \<and>
   map_of (zip net_fields [1048576, 50, 0, 3, 0, 0, 0, 0, 1048576, 50, 0, 0, 0, 0, 0, 0]) ''r_drop''
     = Some 3 \<and>
   (\<exists>status_outp. \<forall>warn crit.
      (\<forall>w c. warn = Some w \<and> crit = Some c \<longrightarrow> 2 \<le> length w \<and> 2 \<le> length c) \<longrightarrow>
      (\<exists>perfdata. fst (check_net net_sampled ''eth0'' warn crit) =
                     Exit 2 [status_line status_outp perfdata]))"
  using network_errors_dominate
    [of net_sampled "''eth0''" 999 "[(''eth0'', [1048576, 50, 0, 0, 0, 0, 0, 0, 0, 0, 0, 0, 0, 0, 0, 0])]"
        "map_of (zip net_fields [1048576, 50, 0, 3, 0, 0, 0, 0, 1048576, 50, 0, 0, 0, 0, 0, 0])"
        "''r_drop''" 3]
    net_sampled_deltas
  by (simp add: net_sampled_def demo_host_def hard_errors_def net_fields_def)

theorem network_negative_delta_not_critical:
  "interim net_restarted ''proc_net_dev_eth0'' =
     Some (999, [(''eth0'', [1048576, 50, 1, 0, 0, 0, 0, 0, 0, 0, 0, 0, 0, 0, 0, 0])]) \<and>
   find_line ''eth0'' (net_dev net_restarted) =
     Some [2097152, 100, 0, 0, 0, 0, 0, 0, 1048576, 50, 0, 0, 0, 0, 0, 0] \<and>
   fst (check_net net_restarted ''eth0'' (Some [''5'', ''5'']) (Some [''10'', ''10''])) =
     Exit 0
      [[S ''eth0'', S '' Rx: '', F2 1, S '' MB/s ('', F2 50, S '' p/s)'',
        S '' Tx: '', F2 1, S '' MB/s ('', F2 50, S '' p/s)'', S '' [t:'', F2 1,
        S '']'', S '' (OK)'', S '' | '', S ''RX_MBps'', S ''='', F2 1, S '';'',
        S ''5'', S '';'', S ''10'', S '' '', S ''RX_PKps'', S ''='', F2 50,
        S '' '', S ''TX_MBps'', S ''='', F2 1, S '';'', S ''5'', S '';'',
        S ''10'', S '' '', S ''TX_PKps'', S ''='', F2 50, S '' '',
        S ''PK_ERRORS'', S ''='', F2 0]]"
  by (simp add: net_restarted_def demo_host_def check_net_def find_line_def net_deltas_def
        net_fields_def net_report_def key_def rbind_def hard_errors_def tuple_thresholds_def
        reaches_any_def idx_def py_float_5 py_float_10 pair_bounds_def finish_def
        status_line_def strip_def Let_def)














lemma check_cpu_zero_total:
  assumes "interim s ''proc_stat'' = Some (mtime, old)"
    and "cpu_deltas old (proc_stat s) \<noteq> []" and "sum_list (cpu_deltas old (proc_stat s)) = 0"
  shows "check_cpu s warn crit = (Uncaught ZeroDivisionError, interim s)"
proof -
  have "cpu_pcts old (proc_stat s) = Inl ZeroDivisionError"
    using assms(2,3) by (simp add: cpu_pcts_def cpu_percents_def rbind_def)
  then show ?thesis
    by (simp add: check_cpu_def assms(1) finish_def rbind_def)
qed

lemma check_procs_zero_period:
  assumes "interim s ''proc_stat_processes'' = Some (mtime, old)" and "clock s = mtime"
    and "scan_processes (\<lambda>v. v) (proc_stat s) 0 = Inr curr_forks"
    and "scan_processes (\<lambda>v. curr_forks - v) old 0 = Inr forks"
  shows "check_procs s warn crit = (Uncaught ZeroDivisionError, interim s)"
proof -
  have "procs_report s mtime old warn crit = Inl ZeroDivisionError"
    using assms(2-4) by (simp add: procs_report_def rbind_def)
  then show ?thesis
    by (simp add: check_procs_def assms(1) finish_def)
qed

lemma check_diskio_zero_period:
  assumes "resolves_to s dev device" and "find_line device (diskstats s) = Some proc_line"
    and "proc_line \<noteq> []"
    and "interim s (''proc_diskstats_'' @ replace_slash device) = Some (mtime, old)"
    and "find_line device old = Some interim_line" and "interim_line \<noteq> []"
    and "clock s = mtime"
  shows "check_diskio s dev warn crit = (Uncaught ZeroDivisionError, interim s)"
proof -
  have "disk_rate proc_line (Some interim_line) 0 0 = Inl ZeroDivisionError"
    using assms(3,6) by (simp add: disk_rate_def rbind_def idx_def)
  then have "diskio_report s dev device proc_line mtime old warn crit = Inl ZeroDivisionError"
    using assms(5,7) by (simp add: diskio_report_def rbind_def)
  then show ?thesis
    unfolding check_diskio_resolved [OF assms(1,2)] assms(4) by (simp add: finish_def)
qed

lemma check_net_zero_period:
  assumes "interim s (''proc_net_dev_'' @ interface) = Some (mtime, old)"
    and "net_deltas (find_line interface (net_dev s)) (find_line interface old) = Inr (Some int_d)"
    and "clock s = mtime"
  shows "check_net s interface warn crit = (Uncaught ZeroDivisionError, interim s)"
proof -
  obtain rb where rb: "int_d ''r_bytes'' = Some rb"
    using net_deltas_keys [OF assms(2), of "''r_bytes''"] by (auto simp: net_fields_def)
  have "net_report s interface int_d mtime warn crit = Inl ZeroDivisionError"
    using assms(3) rb by (simp add: net_report_def rbind_def key_def)
  then show ?thesis
    unfolding check_net_def Let_def assms(1) option.case prod.case assms(2) sum.case
    by (simp add: finish_def)
qed

text \<open>
  Claim C1, as amended. When the cpu probe finds a zero sum of deltas, or the procs,
  diskio or network probe finds an elapsed time of exactly zero, the division raises
  \<open>ZeroDivisionError\<close> and nothing catches it: no status line, the stored sample stays as
  it was, and the interpreter ends with status 1. A negative elapsed time is not detected:
  the rate is the delta divided by it.
\<close>

theorem zero_sample_raises:
  "(interim s ''proc_stat'' = Some (mtime, old) \<and> cpu_deltas old (proc_stat s) \<noteq> [] \<and>
    sum_list (cpu_deltas old (proc_stat s)) = 0 \<longrightarrow>
      check_cpu s warn crit = (Uncaught ZeroDivisionError, interim s)) \<and>
   (interim s ''proc_stat_processes'' = Some (ptime, pold) \<and> clock s = ptime \<and>
    scan_processes (\<lambda>v. v) (proc_stat s) 0 = Inr curr_forks \<and>
    scan_processes (\<lambda>v. curr_forks - v) pold 0 = Inr forks \<longrightarrow>
      check_procs s warns crits = (Uncaught ZeroDivisionError, interim s)) \<and>
   (resolves_to s dev device \<and> find_line device (diskstats s) = Some proc_line \<and>
    proc_line \<noteq> [] \<and>
    interim s (''proc_diskstats_'' @ replace_slash device) = Some (dtime, dold) \<and>
    find_line device dold = Some interim_line \<and> interim_line \<noteq> [] \<and> clock s = dtime \<longrightarrow>
      check_diskio s dev warns crits = (Uncaught ZeroDivisionError, interim s)) \<and>
   (interim s (''proc_net_dev_'' @ interface) = Some (ntime, nold) \<and>
    net_deltas (find_line interface (net_dev s)) (find_line interface nold) = Inr (Some int_d) \<and>
    clock s = ntime \<longrightarrow>
      check_net s interface warns crits = (Uncaught ZeroDivisionError, interim s)) \<and>
   exit_code (Uncaught ZeroDivisionError) = 1 \<and>
   (period < 0 \<and> k < length proc_line \<and> k < length interim_line \<longrightarrow>
      disk_rate proc_line (Some interim_line) period k =
        Inr (of_int (proc_line ! k - interim_line ! k) / period))"
proof (intro conjI impI; (elim conjE)?)
  show "exit_code (Uncaught ZeroDivisionError) = 1" by simp
  show "check_cpu s warn crit = (Uncaught ZeroDivisionError, interim s)"
    if "interim s ''proc_stat'' = Some (mtime, old)" "cpu_deltas old (proc_stat s) \<noteq> []"
      "sum_list (cpu_deltas old (proc_stat s)) = 0"
    using that by (rule check_cpu_zero_total)
  show "check_procs s warns crits = (Uncaught ZeroDivisionError, interim s)"
    if "interim s ''proc_stat_processes'' = Some (ptime, pold)" "clock s = ptime"
      "scan_processes (\<lambda>v. v) (proc_stat s) 0 = Inr curr_forks"
      "scan_processes (\<lambda>v. curr_forks - v) pold 0 = Inr forks"
    using that by (rule check_procs_zero_period)
  show "check_diskio s dev warns crits = (Uncaught ZeroDivisionError, interim s)"
    if "resolves_to s dev device" "find_line device (diskstats s) = Some proc_line"
      "proc_line \<noteq> []"
      "interim s (''proc_diskstats_'' @ replace_slash device) = Some (dtime, dold)"
      "find_line device dold = Some interim_line" "interim_line \<noteq> []" "clock s = dtime"
    using that by (rule check_diskio_zero_period)
  show "check_net s interface warns crits = (Uncaught ZeroDivisionError, interim s)"
    if "interim s (''proc_net_dev_'' @ interface) = Some (ntime, nold)"
      "net_deltas (find_line interface (net_dev s)) (find_line interface nold) = Inr (Some int_d)"
      "clock s = ntime"
    using that by (rule check_net_zero_period)
  show "disk_rate proc_line (Some interim_line) period k =
        Inr (of_int (proc_line ! k - interim_line ! k) / period)"
    if "period < 0" "k < length proc_line" "k < length interim_line"
    using that by (simp add: disk_rate_def rbind_def idx_def)
qed

lemma same_instant_net_deltas:
  "net_deltas (find_line ''eth0'' (net_dev same_instant))
     (find_line ''eth0'' [(''eth0'', [1048576, 50, 0, 0, 0, 0, 0, 0, 0, 0, 0, 0, 0, 0, 0, 0])]) =
   Inr (Some (map_of (zip net_fields [1048576, 50, 0, 0, 0, 0, 0, 0, 1048576, 50, 0, 0, 0, 0, 0, 0])))"
  by (simp add: net_deltas_def find_line_def same_instant_def demo_host_def)

theorem zero_sample_raises_witness:
  "interim same_instant ''proc_stat'' = Some (1000, [(''cpu'', [150, 0, 70, 870, 0, 0, 0, 0])]) \<and>
   cpu_deltas [(''cpu'', [150, 0, 70, 870, 0, 0, 0, 0])] (proc_stat same_instant) = [0, 0, 0, 0, 0, 0, 0, 0] \<and>
   interim same_instant ''proc_stat_processes'' = Some (1000, [(''processes'', [4990])]) \<and>
   clock same_instant = 1000 \<and>
   scan_processes (\<lambda>v. v) (proc_stat same_instant) 0 = Inr 5000 \<and>
   scan_processes (\<lambda>v. 5000 - v) [(''processes'', [4990])] 0 = Inr 10 \<and>
   resolves_to same_instant ''sda'' ''sda'' \<and>
   find_line ''sda'' (diskstats same_instant) = Some [100, 0, 800, 10, 50, 0, 400, 5] \<and>
   interim same_instant (''proc_diskstats_'' @ replace_slash ''sda'') =
     Some (1000, [(''sda'', [90, 0, 700, 10, 40, 0, 300, 5])]) \<and>
   interim same_instant (''proc_net_dev_'' @ ''eth0'') =
     Some (1000, [(''eth0'', [1048576, 50, 0, 0, 0, 0, 0, 0, 0, 0, 0, 0, 0, 0, 0, 0])]) \<and>
   check_cpu same_instant (Some ''80'') (Some ''90'') = (Uncaught ZeroDivisionError, interim same_instant) \<and>
   check_procs same_instant None None = (Uncaught ZeroDivisionError, interim same_instant) \<and>
   check_diskio same_instant ''sda'' None None = (Uncaught ZeroDivisionError, interim same_instant) \<and>
   check_net same_instant ''eth0'' None None = (Uncaught ZeroDivisionError, interim same_instant) \<and>
   disk_rate [100, 0, 800, 10, 50, 0, 400, 5] (Some [90, 0, 700, 10, 40, 0, 300, 5]) (- 1) 2 = Inr (- 100)"
  using zero_sample_raises
    [of same_instant 1000 "[(''cpu'', [150, 0, 70, 870, 0, 0, 0, 0])]" "Some ''80''" "Some ''90''"
        1000 "[(''processes'', [4990])]" 5000 10 None None
        "''sda''" "''sda''" "[100, 0, 800, 10, 50, 0, 400, 5]"
        1000 "[(''sda'', [90, 0, 700, 10, 40, 0, 300, 5])]" "[90, 0, 700, 10, 40, 0, 300, 5]"
        "''eth0''" 1000 "[(''eth0'', [1048576, 50, 0, 0, 0, 0, 0, 0, 0, 0, 0, 0, 0, 0, 0, 0])]"
        "map_of (zip net_fields [1048576, 50, 0, 0, 0, 0, 0, 0, 1048576, 50, 0, 0, 0, 0, 0, 0])"
        "- 1" 2]
    same_instant_net_deltas
  by (simp add: same_instant_def demo_host_def cpu_deltas_def first_fields_def rbind_def idx_def
        resolves_to_def startswith_def find_line_def replace_slash_def)

theorem zero_or_negative_sample_not_reported:
  "fst (check_cpu same_instant (Some ''80'') (Some ''90'')) = Uncaught ZeroDivisionError \<and>
   exit_code (fst (check_cpu same_instant (Some ''80'') (Some ''90''))) = 1 \<and>
   fst (check_net net_skewed ''eth0'' None None) =
     Exit 0
      [[S ''eth0'', S '' Rx: '', F2 (- 1), S '' MB/s ('', F2 (- 50),
        S '' p/s)'', S '' Tx: '', F2 (- 1), S '' MB/s ('', F2 (- 50),
        S '' p/s)'', S '' [t:'', F2 (- 1), S '']'', S '' | '', S ''RX_MBps'',
        S ''='', F2 (- 1), S '' '', S ''RX_PKps'', S ''='', F2 (- 50), S '' '',
        S ''TX_MBps'', S ''='', F2 (- 1), S '' '', S ''TX_PKps'', S ''='',
        F2 (- 50), S '' '', S ''PK_ERRORS'', S ''='', F2 0]]"
proof -
  have a: "fst (check_cpu same_instant (Some ''80'') (Some ''90'')) = Uncaught ZeroDivisionError"
    by (simp add: check_cpu_def same_instant_def demo_host_def finish_def cpu_pcts_def
          cpu_percents_def cpu_deltas_def first_fields_def rbind_def)
  have b: "fst (check_net net_skewed ''eth0'' None None) =
     Exit 0
      [[S ''eth0'', S '' Rx: '', F2 (- 1), S '' MB/s ('', F2 (- 50),
        S '' p/s)'', S '' Tx: '', F2 (- 1), S '' MB/s ('', F2 (- 50),
        S '' p/s)'', S '' [t:'', F2 (- 1), S '']'', S '' | '', S ''RX_MBps'',
        S ''='', F2 (- 1), S '' '', S ''RX_PKps'', S ''='', F2 (- 50), S '' '',
        S ''TX_MBps'', S ''='', F2 (- 1), S '' '', S ''TX_PKps'', S ''='',
        F2 (- 50), S '' '', S ''PK_ERRORS'', S ''='', F2 0]]"
    by (simp add: net_skewed_def demo_host_def check_net_def find_line_def net_deltas_def
        net_fields_def net_report_def key_def rbind_def hard_errors_def tuple_thresholds_def
        pair_bounds_def finish_def status_line_def strip_def Let_def)
  from a b show ?thesis by simp
qed

lemma check_cpu_severity:
  assumes "py_float warn = Inr w" and "py_float crit = Inr c"
    and "interim s ''proc_stat'' = Some (mtime, old)"
    and "ds = cpu_deltas old (proc_stat s)" and "sum_list ds \<noteq> 0" and "7 \<le> length ds"
  shows "\<exists>ln. fst (check_cpu s (Some warn) (Some crit)) =
           Exit (severity (100 - 100 * of_int (ds ! 3) / of_int (sum_list ds)) w c) [ln]"
proof -
  have p: "cpu_pcts old (proc_stat s) = Inr [''user'' \<mapsto> 100 * of_int (ds ! 0) / of_int (sum_list ds),
          ''nice'' \<mapsto> 100 * of_int (ds ! 1) / of_int (sum_list ds),
          ''system'' \<mapsto> 100 * of_int (ds ! 2) / of_int (sum_list ds),
          ''idle'' \<mapsto> 100 * of_int (ds ! 3) / of_int (sum_list ds),
          ''iowait'' \<mapsto> 100 * of_int (ds ! 4) / of_int (sum_list ds),
          ''irq'' \<mapsto> 100 * of_int (ds ! 5) / of_int (sum_list ds),
          ''softirq'' \<mapsto> 100 * of_int (ds ! 6) / of_int (sum_list ds),
          ''steal'' \<mapsto> (if 8 \<le> length ds then 100 * of_int (ds ! 7) / of_int (sum_list ds) else 0),
          ''cpu'' \<mapsto> 100 - 100 * of_int (ds ! 3) / of_int (sum_list ds)]"
    using cpu_pcts_eq [of old "proc_stat s"] assms(4-6) by simp
  show ?thesis
    unfolding check_cpu_def assms(3) option.case prod.case Let_def p
    by (simp add: finish_def rbind_def key_def thresholds_def
          classify_scalar_parsed [OF assms(1,2)])
qed

lemma check_threads_severity:
  assumes "py_int warn = Inr w" and "py_int crit = Inr c"
    and "2 \<le> length (snd (proc_loadavg s))"
  shows "\<exists>ln. check_threads s (Some warn) (Some crit) =
           Exit (severity (of_int (snd (proc_loadavg s) ! 0)) (of_int w) (of_int c)) [ln]"
proof -
  have "py_int_value warn = Inr (of_int w)" "py_int_value crit = Inr (of_int c)"
    using assms(1,2) by (simp_all add: py_int_value_def rbind_def)
  then show ?thesis
    using assms(3)
    by (auto simp: check_threads_def rbind_def idx_def key_def thresholds_def Let_def
          classify_scalar_parsed)
qed

lemma check_openfiles_severity:
  assumes "py_float warn = Inr w" and "py_float crit = Inr c" and "3 \<le> length (file_nr s)"
  shows "\<exists>ln. check_openfiles s (Some warn) (Some crit) =
           Exit (severity (of_int (file_nr s ! 0)) w c) [ln]"
  using assms(3)
  by (auto simp: check_openfiles_def rbind_def idx_def key_def thresholds_def Let_def
        classify_scalar_parsed [OF assms(1,2)])

lemma check_disku_severity:
  assumes "py_float warn = Inr w" and "py_float crit = Inr c"
    and "statvfs s mount = Some (f_frsize, f_blocks, f_bfree, f_bavail)"
    and "f_frsize * f_blocks \<noteq> 0"
  shows "\<exists>ln. check_disku s mount (Some warn) (Some crit) =
           Exit (severity
                  ((of_int (f_frsize * f_blocks) / 1024 / 1024 / 1024
                    - of_int (f_frsize * f_bavail) / 1024 / 1024 / 1024)
                   / (of_int (f_frsize * f_blocks) / 1024 / 1024 / 1024) * 100) w c) [ln]"
proof -
  have nz: "(of_int (f_frsize * f_blocks) / 1024 / 1024 / 1024 = (0::rat)) = False"
    using assms(4) by simp
  show ?thesis
    unfolding check_disku_def assms(3) option.case prod.case Let_def
    by (simp only: nz if_False thresholds_def option.case prod.case
          classify_scalar_parsed [OF assms(1,2)] rbind_def sum.case) blast
qed

lemma reaches_any_parsed:
  "py_float t0 = Inr x \<Longrightarrow> py_float t1 = Inr y \<Longrightarrow>
   reaches_any a b [t0, t1] = Inr (a \<ge> x \<or> b \<ge> y)"
  by (simp add: reaches_any_def rbind_def idx_def)

lemma disk_rate_ok:
  "p \<noteq> 0 \<Longrightarrow> k < length pl \<Longrightarrow> k < length il \<Longrightarrow>
   disk_rate pl (Some il) p k = Inr (of_int (pl ! k - il ! k) / p)"
  by (simp add: disk_rate_def rbind_def idx_def)

lemma pair_classification:
  assumes "reaches_any a b crit = Inr (a \<ge> c0 \<or> b \<ge> c1)"
    and "reaches_any a b warn = Inr (a \<ge> w0 \<or> b \<ge> w1)"
  shows "\<exists>note. rbind (reaches_any a b crit) (\<lambda>critical.
              if critical then Inr (2, [S '' (Critical)''])
              else rbind (reaches_any a b warn) (\<lambda>warning.
                if warning then Inr (1, [S '' (Warning)''])
                else Inr (0, [S '' (OK)'']))) =
           Inr (max (severity a w0 c0) (severity b w1 c1), note)"
  by (auto simp: assms rbind_def severity_def)

lemma diskio_report_severity:
  assumes w: "py_float pw0 = Inr w0" "py_float pw1 = Inr w1"
    and c: "py_float pc0 = Inr c0" "py_float pc1 = Inr c1"
    and il: "find_line device old = Some il" and len: "8 \<le> length pl" "8 \<le> length il"
    and t: "clock s \<noteq> mtime"
  shows "\<exists>ln. diskio_report s dev device pl mtime old (Some [pw0, pw1]) (Some [pc0, pc1]) =
           Inr (max (severity (of_int (pl ! 2 - il ! 2) / (clock s - mtime)) w0 c0)
                    (severity (of_int (pl ! 6 - il ! 6) / (clock s - mtime)) w1 c1), ln)"
proof -
  let ?p = "clock s - mtime"
  have p0: "?p \<noteq> 0" using t by simp
  have r: "disk_rate pl (Some il) ?p 0 = Inr (of_int (pl ! 0 - il ! 0) / ?p)"
    "disk_rate pl (Some il) ?p 2 = Inr (of_int (pl ! 2 - il ! 2) / ?p)"
    "disk_rate pl (Some il) ?p 3 = Inr (of_int (pl ! 3 - il ! 3) / ?p)"
    "disk_rate pl (Some il) ?p 4 = Inr (of_int (pl ! 4 - il ! 4) / ?p)"
    "disk_rate pl (Some il) ?p 6 = Inr (of_int (pl ! 6 - il ! 6) / ?p)"
    "disk_rate pl (Some il) ?p 7 = Inr (of_int (pl ! 7 - il ! 7) / ?p)"
    using len p0 by (auto simp: disk_rate_def rbind_def idx_def)
  let ?rs = "of_int (pl ! 2 - il ! 2) / ?p" and ?ws = "of_int (pl ! 6 - il ! 6) / ?p"
  obtain ann where n: "rbind (reaches_any ?rs ?ws [pc0, pc1]) (\<lambda>critical.
              if critical then Inr (2, [S '' (Critical)''])
              else rbind (reaches_any ?rs ?ws [pw0, pw1]) (\<lambda>warning.
                if warning then Inr (1, [S '' (Warning)''])
                else Inr (0, [S '' (OK)'']))) =
           Inr (max (severity ?rs w0 c0) (severity ?ws w1 c1), ann)"
    using pair_classification [OF reaches_any_parsed [OF c] reaches_any_parsed [OF w]] by blast
  have ok: "\<forall>w c. Some ([pw0, pw1], [pc0, pc1]) = Some (w, c) \<longrightarrow> 2 \<le> length w \<and> 2 \<le> length c"
    by simp
  obtain perf where perf: "pair_perfdata (Some ([pw0, pw1], [pc0, pc1])) ''read_sectors'' ''write_sectors''
      [(''read_operations'', of_int (pl ! 0 - il ! 0) / ?p), (''read_sectors'', ?rs),
       (''read_time'', of_int (pl ! 3 - il ! 3) / ?p),
       (''write_operations'', of_int (pl ! 4 - il ! 4) / ?p), (''write_sectors'', ?ws),
       (''write_time'', of_int (pl ! 7 - il ! 7) / ?p)] = Inr perf"
    using pair_perfdata_ok [OF ok] by blast
  have tt: "tuple_thresholds (Some [pw0, pw1]) (Some [pc0, pc1]) = Some ([pw0, pw1], [pc0, pc1])"
    by (simp add: tuple_thresholds_def)
  show ?thesis
    unfolding diskio_report_def Let_def il
    by (simp only: r tt option.case prod.case n perf rbind_def [of "Inr _"] sum.case) blast
qed

lemma bandwidth_classification:
  assumes "reaches_any a b crit = Inr (a \<ge> c0 \<or> b \<ge> c1)"
    and "reaches_any a b warn = Inr (a \<ge> w0 \<or> b \<ge> w1)"
  shows "\<exists>out. rbind (reaches_any a b crit) (\<lambda>critical.
              if critical then Inr (2, so @ [S '' (Critical BW)''])
              else rbind (reaches_any a b warn) (\<lambda>warning.
                if warning then Inr (if (0::nat) < 1 then 1 else 0, so @ [S '' (Warning BW)''])
                else Inr (0, so @ [S '' (OK)'']))) =
           Inr (max (severity a w0 c0) (severity b w1 c1), out)"
  by (auto simp: assms rbind_def severity_def)

lemma net_report_severity:
  assumes w: "py_float pw0 = Inr w0" "py_float pw1 = Inr w1"
    and c: "py_float pc0 = Inr c0" "py_float pc1 = Inr c1"
    and d: "net_deltas cur old = Inr (Some int_d)" and t: "clock s \<noteq> mtime"
    and noerr: "\<forall>x \<in> set hard_errors. \<forall>v. int_d x = Some v \<longrightarrow> v \<le> 0"
    and rb: "int_d ''r_bytes'' = Some rb" and tb: "int_d ''t_bytes'' = Some tb"
  shows "\<exists>ln. net_report s interface int_d mtime (Some [pw0, pw1]) (Some [pc0, pc1]) =
           Inr (max (severity (of_int rb / 1024 / 1024 / (clock s - mtime)) w0 c0)
                    (severity (of_int tb / 1024 / 1024 / (clock s - mtime)) w1 c1), ln)"
proof -
  obtain rp where rp: "int_d ''r_packets'' = Some rp"
    using net_deltas_keys [OF d, of "''r_packets''"] by (auto simp: net_fields_def)
  obtain tp where tp: "int_d ''t_packets'' = Some tp"
    using net_deltas_keys [OF d, of "''t_packets''"] by (auto simp: net_fields_def)
  let ?p = "clock s - mtime"
  let ?rx = "of_int rb / 1024 / 1024 / ?p" and ?tx = "of_int tb / 1024 / 1024 / ?p"
  let ?base = "[S interface, S '' Rx: '', F2 ?rx, S '' MB/s ('',
                F2 (of_int rp / ?p), S '' p/s)'', S '' Tx: '', F2 ?tx,
                S '' MB/s ('', F2 (of_int tp / ?p), S '' p/s)'', S '' [t:'', F2 ?p, S '']'']"
  have p0: "(?p = 0) = False" using t by simp
  have keys: "\<forall>y \<in> set hard_errors. \<exists>u. int_d y = Some u"
    using net_deltas_keys [OF d] hard_errors_fields by blast
  from pk_errors_result [OF keys, of 0 0 ?base] noerr
  obtain pk code ann where
    "pk_errors int_d hard_errors (0, 0, ?base) = Inr (pk, code, ?base @ ann)"
    and "pk = 0" "code = 0" "ann = []" by blast
  then have pe: "pk_errors int_d hard_errors (0, 0, ?base) = Inr (0, 0, ?base)"
    by (simp only: append_Nil2)
  obtain out where n: "rbind (reaches_any ?rx ?tx [pc0, pc1]) (\<lambda>critical.
              if critical then Inr (2, ?base @ [S '' (Critical BW)''])
              else rbind (reaches_any ?rx ?tx [pw0, pw1]) (\<lambda>warning.
                if warning then Inr (if (0::nat) < 1 then 1 else 0, ?base @ [S '' (Warning BW)''])
                else Inr (0, ?base @ [S '' (OK)'']))) =
           Inr (max (severity ?rx w0 c0) (severity ?tx w1 c1), out)"
    using bandwidth_classification [OF reaches_any_parsed [OF c] reaches_any_parsed [OF w]]
    by blast
  have ok: "\<forall>w c. Some ([pw0, pw1], [pc0, pc1]) = Some (w, c) \<longrightarrow> 2 \<le> length w \<and> 2 \<le> length c"
    by simp
  obtain perf where perf: "pair_perfdata (Some ([pw0, pw1], [pc0, pc1])) ''RX_MBps'' ''TX_MBps''
      [(''RX_MBps'', ?rx), (''RX_PKps'', of_int rp / ?p), (''TX_MBps'', ?tx),
       (''TX_PKps'', of_int tp / ?p), (''PK_ERRORS'', of_int 0)] = Inr perf"
    using pair_perfdata_ok [OF ok] by blast
  have tt: "tuple_thresholds (Some [pw0, pw1]) (Some [pc0, pc1]) = Some ([pw0, pw1], [pc0, pc1])"
    by (simp add: tuple_thresholds_def)
  have z: "((0::int) = 0) = True" by simp
  show ?thesis
    unfolding net_report_def Let_def
    by (simp only: key_def rb tb rp tp option.case p0 if_False pe tt prod.case z if_True n perf
          rbind_def [of "Inr _"] sum.case) blast
qed

lemma check_diskio_severity:
  assumes "py_float pw0 = Inr w0" "py_float pw1 = Inr w1"
    and "py_float pc0 = Inr c0" "py_float pc1 = Inr c1"
    and r: "resolves_to s dev device" and pl: "find_line device (diskstats s) = Some pl"
    and snap: "interim s (''proc_diskstats_'' @ replace_slash device) = Some (mtime, old)"
    and "find_line device old = Some il" and "8 \<le> length pl" "8 \<le> length il"
    and "clock s \<noteq> mtime"
  shows "\<exists>ln. fst (check_diskio s dev (Some [pw0, pw1]) (Some [pc0, pc1])) =
           Exit (max (severity (of_int (pl ! 2 - il ! 2) / (clock s - mtime)) w0 c0)
                     (severity (of_int (pl ! 6 - il ! 6) / (clock s - mtime)) w1 c1)) [ln]"
proof -
  from diskio_report_severity [OF assms(1-4) assms(8-11), of dev] obtain ln where
    "diskio_report s dev device pl mtime old (Some [pw0, pw1]) (Some [pc0, pc1]) =
           Inr (max (severity (of_int (pl ! 2 - il ! 2) / (clock s - mtime)) w0 c0)
                    (severity (of_int (pl ! 6 - il ! 6) / (clock s - mtime)) w1 c1), ln)"
    by blast
  then show ?thesis
    unfolding check_diskio_resolved [OF r pl] snap option.case prod.case finish_def
    by simp
qed

lemma check_net_severity:
  assumes "py_float pw0 = Inr w0" "py_float pw1 = Inr w1"
    and "py_float pc0 = Inr c0" "py_float pc1 = Inr c1"
    and snap: "interim s (''proc_net_dev_'' @ interface) = Some (mtime, old)"
    and d: "net_deltas (find_line interface (net_dev s)) (find_line interface old) = Inr (Some int_d)"
    and "clock s \<noteq> mtime"
    and "\<forall>x \<in> set hard_errors. \<forall>v. int_d x = Some v \<longrightarrow> v \<le> 0"
    and "int_d ''r_bytes'' = Some rb" and "int_d ''t_bytes'' = Some tb"
  shows "\<exists>ln. fst (check_net s interface (Some [pw0, pw1]) (Some [pc0, pc1])) =
           Exit (max (severity (of_int rb / 1024 / 1024 / (clock s - mtime)) w0 c0)
                     (severity (of_int tb / 1024 / 1024 / (clock s - mtime)) w1 c1)) [ln]"
proof -
  from net_report_severity [OF assms(1-4) d assms(7-10), of interface] obtain ln where
    "net_report s interface int_d mtime (Some [pw0, pw1]) (Some [pc0, pc1]) =
           Inr (max (severity (of_int rb / 1024 / 1024 / (clock s - mtime)) w0 c0)
                    (severity (of_int tb / 1024 / 1024 / (clock s - mtime)) w1 c1), ln)"
    by blast
  then show ?thesis
    unfolding check_net_def Let_def snap option.case prod.case d sum.case finish_def
    by simp
qed

lemma max_severity_at_crit:
  assumes "i < length ws" and "vals ! i = cs ! i"
  shows "max_severity vals ws cs = 2"
proof -
  have "sev_at vals ws cs i = 2" using assms(2) by (simp add: sev_at_def severity_def)
  then have "2 \<in> set (0 # map (sev_at vals ws cs) [0..<length ws])"
    using assms(1) by (auto simp: image_iff intro: bexI [of _ i])
  moreover have "\<forall>y \<in> set (0 # map (sev_at vals ws cs) [0..<length ws]). y \<le> 2"
    by (auto simp: sev_at_def severity_le_2)
  ultimately show ?thesis
    unfolding max_severity_def by (intro Max_eqI) auto
qed

lemma max_severity_at_warn:
  assumes "i < length ws" and "vals ! i = ws ! i" and "\<forall>j < length ws. vals ! j < cs ! j"
  shows "max_severity vals ws cs = 1"
proof -
  have "vals ! i < cs ! i" using assms(1,3) by simp
  then have "sev_at vals ws cs i = 1" using assms(2) by (simp add: sev_at_def severity_def)
  then have "1 \<in> set (0 # map (sev_at vals ws cs) [0..<length ws])"
    using assms(1) by (auto simp: image_iff intro: bexI [of _ i])
  moreover have "\<forall>y \<in> set (0 # map (sev_at vals ws cs) [0..<length ws]). y \<le> 1"
    using assms(3) by (auto simp: sev_at_def severity_def)
  ultimately show ?thesis
    unfolding max_severity_def by (intro Max_eqI) auto
qed

lemma check_procs_max:
  assumes "map py_float warn = map Inr ws" and "map py_float crit = map Inr cs"
    and "length ws = length cs" and "length ws \<le> 3"
    and snap: "interim s ''proc_stat_processes'' = Some (mtime, old)"
    and "clock s \<noteq> mtime"
    and "scan_processes (\<lambda>v. v) (proc_stat s) 0 = Inr curr_forks"
    and "scan_processes (\<lambda>v. curr_forks - v) old 0 = Inr forks"
    and "walk_proc (proc_dirs s) 0 [] = Inr (p_total, states_procs)"
    and "p = count_states states_procs"
    and "vals = [of_nat p_total, of_nat (running p), of_nat (waiting p)]"
  shows "\<exists>ln. fst (check_procs s (Some warn) (Some crit)) = Exit (max_severity vals ws cs) [ln]"
proof -
  from procs_report_max [OF assms(1-4) assms(6-11)] obtain ln where
    "procs_report s mtime old (Some warn) (Some crit) = Inr (max_severity vals ws cs, ln)"
    by blast
  then show ?thesis
    unfolding check_procs_def snap option.case prod.case finish_def by simp
qed

text \<open>
  Claim C3. With thresholds present every probe compares inclusively: its exit code is the
  severity of its value, 2 when \<open>value \<ge> crit\<close>, else 1 when \<open>value \<ge> warn\<close>, else 0 (for the
  tuple probes the maximum over the positions, for diskio and network the maximum over
  the two rates, network when no error counter rose). So a value equal to \<open>crit\<close> is
  CRITICAL, and a value equal to \<open>warn\<close> and below \<open>crit\<close> is WARNING.
\<close>

theorem inclusive_thresholds:
  "severity c w c = 2 \<and> (w < c \<longrightarrow> severity w w c = 1) \<and>
   (i < length ws \<and> vals ! i = cs ! i \<longrightarrow> max_severity vals ws cs = 2) \<and>
   (k < length ws2 \<and> vals2 ! k = ws2 ! k \<and> (\<forall>j < length ws2. vals2 ! j < cs2 ! j) \<longrightarrow>
      max_severity vals2 ws2 cs2 = 1) \<and>
   (py_float warn = Inr w \<and> py_float crit = Inr c \<longrightarrow>
      (interim s ''proc_stat'' = Some (mtime, old) \<and> ds = cpu_deltas old (proc_stat s) \<and>
       sum_list ds \<noteq> 0 \<and> 7 \<le> length ds \<longrightarrow>
         (\<exists>ln. fst (check_cpu s (Some warn) (Some crit)) =
            Exit (severity (100 - 100 * of_int (ds ! 3) / of_int (sum_list ds)) w c) [ln])) \<and>
      (3 \<le> length (file_nr s) \<longrightarrow>
         (\<exists>ln. check_openfiles s (Some warn) (Some crit) =
            Exit (severity (of_int (file_nr s ! 0)) w c) [ln])) \<and>
      (statvfs s mount = Some (f_frsize, f_blocks, f_bfree, f_bavail) \<and> f_frsize * f_blocks \<noteq> 0 \<longrightarrow>
         (\<exists>ln. check_disku s mount (Some warn) (Some crit) =
            Exit (severity
                   ((of_int (f_frsize * f_blocks) / 1024 / 1024 / 1024
                     - of_int (f_frsize * f_bavail) / 1024 / 1024 / 1024)
                    / (of_int (f_frsize * f_blocks) / 1024 / 1024 / 1024) * 100) w c) [ln])) \<and>
      (meminfo s ''MemTotal'' = Some t \<and> meminfo s ''Active'' = Some a \<and>
       meminfo s ''Cached'' = Some ca \<and> meminfo s ''Buffers'' = Some b \<and>
       meminfo s ''MemFree'' = Some f \<and> t \<noteq> 0 \<longrightarrow>
         (\<exists>ln. check_memory s (Some warn) (Some crit) =
            Exit (severity (of_int (t - f - ca - b) / of_int t * 100) w c) [ln])) \<and>
      (meminfo s ''SwapTotal'' = Some st \<and> meminfo s ''SwapCached'' = Some sc \<and>
       meminfo s ''SwapFree'' = Some sf \<and> st \<noteq> 0 \<longrightarrow>
         (\<exists>ln. check_swap s (Some warn) (Some crit) =
            Exit (severity (of_int (st - sf - sc) / of_int st * 100) w c) [ln]))) \<and>
   (py_int twarn = Inr tw \<and> py_int tcrit = Inr tc \<and> 2 \<le> length (snd (proc_loadavg s)) \<longrightarrow>
      (\<exists>ln. check_threads s (Some twarn) (Some tcrit) =
         Exit (severity (of_int (snd (proc_loadavg s) ! 0)) (of_int tw) (of_int tc)) [ln])) \<and>
   (map py_float warns = map Inr ws \<and> map py_float crits = map Inr cs \<and>
    length ws = length cs \<and> length ws \<le> 3 \<longrightarrow>
      (3 \<le> length (fst (proc_loadavg s)) \<longrightarrow>
         (\<exists>ln. check_load s (Some warns) (Some crits) =
            Exit (max_severity (take 3 (fst (proc_loadavg s))) ws cs) [ln])) \<and>
      (interim s ''proc_stat_processes'' = Some (ptime, pold) \<and> clock s \<noteq> ptime \<and>
       scan_processes (\<lambda>v. v) (proc_stat s) 0 = Inr curr_forks \<and>
       scan_processes (\<lambda>v. curr_forks - v) pold 0 = Inr forks \<and>
       walk_proc (proc_dirs s) 0 [] = Inr (p_total, states_procs) \<and>
       p = count_states states_procs \<and>
       vals = [of_nat p_total, of_nat (running p), of_nat (waiting p)] \<longrightarrow>
         (\<exists>ln. fst (check_procs s (Some warns) (Some crits)) =
            Exit (max_severity vals ws cs) [ln]))) \<and>
   (py_float pw0 = Inr w0 \<and> py_float pw1 = Inr w1 \<and>
    py_float pc0 = Inr c0 \<and> py_float pc1 = Inr c1 \<longrightarrow>
      (resolves_to s dev device \<and> find_line device (diskstats s) = Some pl \<and>
       interim s (''proc_diskstats_'' @ replace_slash device) = Some (dtime, dold) \<and>
       find_line device dold = Some il \<and> 8 \<le> length pl \<and> 8 \<le> length il \<and>
       clock s \<noteq> dtime \<longrightarrow>
         (\<exists>ln. fst (check_diskio s dev (Some [pw0, pw1]) (Some [pc0, pc1])) =
            Exit (max (severity (of_int (pl ! 2 - il ! 2) / (clock s - dtime)) w0 c0)
                      (severity (of_int (pl ! 6 - il ! 6) / (clock s - dtime)) w1 c1)) [ln])) \<and>
      (interim s (''proc_net_dev_'' @ interface) = Some (ntime, nold) \<and>
       net_deltas (find_line interface (net_dev s)) (find_line interface nold) = Inr (Some int_d) \<and>
       clock s \<noteq> ntime \<and>
       (\<forall>x \<in> set hard_errors. \<forall>v. int_d x = Some v \<longrightarrow> v \<le> 0) \<and>
       int_d ''r_bytes'' = Some rb \<and> int_d ''t_bytes'' = Some tb \<longrightarrow>
         (\<exists>ln. fst (check_net s interface (Some [pw0, pw1]) (Some [pc0, pc1])) =
            Exit (max (severity (of_int rb / 1024 / 1024 / (clock s - ntime)) w0 c0)
                      (severity (of_int tb / 1024 / 1024 / (clock s - ntime)) w1 c1)) [ln])))"
proof -
  have A: "severity c w c = 2" by (simp add: severity_def)
  have B: "w < c \<longrightarrow> severity w w c = 1" by (simp add: severity_def)
  have C: "i < length ws \<and> vals ! i = cs ! i \<longrightarrow> max_severity vals ws cs = 2"
    using max_severity_at_crit by blast
  have D: "k < length ws2 \<and> vals2 ! k = ws2 ! k \<and> (\<forall>j < length ws2. vals2 ! j < cs2 ! j) \<longrightarrow>
      max_severity vals2 ws2 cs2 = 1"
    using max_severity_at_warn [of k ws2 vals2 cs2] by blast
  have E: "py_float warn = Inr w \<and> py_float crit = Inr c \<longrightarrow>
      (interim s ''proc_stat'' = Some (mtime, old) \<and> ds = cpu_deltas old (proc_stat s) \<and>
       sum_list ds \<noteq> 0 \<and> 7 \<le> length ds \<longrightarrow>
         (\<exists>ln. fst (check_cpu s (Some warn) (Some crit)) =
            Exit (severity (100 - 100 * of_int (ds ! 3) / of_int (sum_list ds)) w c) [ln])) \<and>
      (3 \<le> length (file_nr s) \<longrightarrow>
         (\<exists>ln. check_openfiles s (Some warn) (Some crit) =
            Exit (severity (of_int (file_nr s ! 0)) w c) [ln])) \<and>
      (statvfs s mount = Some (f_frsize, f_blocks, f_bfree, f_bavail) \<and> f_frsize * f_blocks \<noteq> 0 \<longrightarrow>
         (\<exists>ln. check_disku s mount (Some warn) (Some crit) =
            Exit (severity
                   ((of_int (f_frsize * f_blocks) / 1024 / 1024 / 1024
                     - of_int (f_frsize * f_bavail) / 1024 / 1024 / 1024)
                    / (of_int (f_frsize * f_blocks) / 1024 / 1024 / 1024) * 100) w c) [ln])) \<and>
      (meminfo s ''MemTotal'' = Some t \<and> meminfo s ''Active'' = Some a \<and>
       meminfo s ''Cached'' = Some ca \<and> meminfo s ''Buffers'' = Some b \<and>
       meminfo s ''MemFree'' = Some f \<and> t \<noteq> 0 \<longrightarrow>
         (\<exists>ln. check_memory s (Some warn) (Some crit) =
            Exit (severity (of_int (t - f - ca - b) / of_int t * 100) w c) [ln])) \<and>
      (meminfo s ''SwapTotal'' = Some st \<and> meminfo s ''SwapCached'' = Some sc \<and>
       meminfo s ''SwapFree'' = Some sf \<and> st \<noteq> 0 \<longrightarrow>
         (\<exists>ln. check_swap s (Some warn) (Some crit) =
            Exit (severity (of_int (st - sf - sc) / of_int st * 100) w c) [ln]))"
  proof (intro impI, elim conjE)
    assume pw: "py_float warn = Inr w" and pc: "py_float crit = Inr c"
    show "(interim s ''proc_stat'' = Some (mtime, old) \<and> ds = cpu_deltas old (proc_stat s) \<and>
       sum_list ds \<noteq> 0 \<and> 7 \<le> length ds \<longrightarrow>
         (\<exists>ln. fst (check_cpu s (Some warn) (Some crit)) =
            Exit (severity (100 - 100 * of_int (ds ! 3) / of_int (sum_list ds)) w c) [ln])) \<and>
      (3 \<le> length (file_nr s) \<longrightarrow>
         (\<exists>ln. check_openfiles s (Some warn) (Some crit) =
            Exit (severity (of_int (file_nr s ! 0)) w c) [ln])) \<and>
      (statvfs s mount = Some (f_frsize, f_blocks, f_bfree, f_bavail) \<and> f_frsize * f_blocks \<noteq> 0 \<longrightarrow>
         (\<exists>ln. check_disku s mount (Some warn) (Some crit) =
            Exit (severity
                   ((of_int (f_frsize * f_blocks) / 1024 / 1024 / 1024
                     - of_int (f_frsize * f_bavail) / 1024 / 1024 / 1024)
                    / (of_int (f_frsize * f_blocks) / 1024 / 1024 / 1024) * 100) w c) [ln])) \<and>
      (meminfo s ''MemTotal'' = Some t \<and> meminfo s ''Active'' = Some a \<and>
       meminfo s ''Cached'' = Some ca \<and> meminfo s ''Buffers'' = Some b \<and>
       meminfo s ''MemFree'' = Some f \<and> t \<noteq> 0 \<longrightarrow>
         (\<exists>ln. check_memory s (Some warn) (Some crit) =
            Exit (severity (of_int (t - f - ca - b) / of_int t * 100) w c) [ln])) \<and>
      (meminfo s ''SwapTotal'' = Some st \<and> meminfo s ''SwapCached'' = Some sc \<and>
       meminfo s ''SwapFree'' = Some sf \<and> st \<noteq> 0 \<longrightarrow>
         (\<exists>ln. check_swap s (Some warn) (Some crit) =
            Exit (severity (of_int (st - sf - sc) / of_int st * 100) w c) [ln]))"
      using check_cpu_severity [OF pw pc, of s mtime old ds]
        check_openfiles_severity [OF pw pc, of s]
        check_disku_severity [OF pw pc, of s mount f_frsize f_blocks f_bfree f_bavail]
        check_memory_with_thresholds [OF pw pc, of s t a ca b f]
        check_swap_with_thresholds [OF pw pc, of s st sc sf]
      by blast
  qed
  have F: "py_int twarn = Inr tw \<and> py_int tcrit = Inr tc \<and> 2 \<le> length (snd (proc_loadavg s)) \<longrightarrow>
      (\<exists>ln. check_threads s (Some twarn) (Some tcrit) =
         Exit (severity (of_int (snd (proc_loadavg s) ! 0)) (of_int tw) (of_int tc)) [ln])"
    using check_threads_severity [of twarn tw tcrit tc s] by blast
  have G: "map py_float warns = map Inr ws \<and> map py_float crits = map Inr cs \<and>
    length ws = length cs \<and> length ws \<le> 3 \<longrightarrow>
      (3 \<le> length (fst (proc_loadavg s)) \<longrightarrow>
         (\<exists>ln. check_load s (Some warns) (Some crits) =
            Exit (max_severity (take 3 (fst (proc_loadavg s))) ws cs) [ln])) \<and>
      (interim s ''proc_stat_processes'' = Some (ptime, pold) \<and> clock s \<noteq> ptime \<and>
       scan_processes (\<lambda>v. v) (proc_stat s) 0 = Inr curr_forks \<and>
       scan_processes (\<lambda>v. curr_forks - v) pold 0 = Inr forks \<and>
       walk_proc (proc_dirs s) 0 [] = Inr (p_total, states_procs) \<and>
       p = count_states states_procs \<and>
       vals = [of_nat p_total, of_nat (running p), of_nat (waiting p)] \<longrightarrow>
         (\<exists>ln. fst (check_procs s (Some warns) (Some crits)) =
            Exit (max_severity vals ws cs) [ln]))"
  proof (intro impI conjI; elim conjE)
    assume h: "map py_float warns = map Inr ws" "map py_float crits = map Inr cs"
      "length ws = length cs" "length ws \<le> 3"
    {
      assume "3 \<le> length (fst (proc_loadavg s))"
      from check_load_max [OF h this]
      show "\<exists>ln. check_load s (Some warns) (Some crits) =
            Exit (max_severity (take 3 (fst (proc_loadavg s))) ws cs) [ln]" by blast
    }
    {
      assume "interim s ''proc_stat_processes'' = Some (ptime, pold)" "clock s \<noteq> ptime"
       "scan_processes (\<lambda>v. v) (proc_stat s) 0 = Inr curr_forks"
       "scan_processes (\<lambda>v. curr_forks - v) pold 0 = Inr forks"
       "walk_proc (proc_dirs s) 0 [] = Inr (p_total, states_procs)"
       "p = count_states states_procs"
       "vals = [of_nat p_total, of_nat (running p), of_nat (waiting p)]"
      from check_procs_max [OF h this]
      show "\<exists>ln. fst (check_procs s (Some warns) (Some crits)) =
            Exit (max_severity vals ws cs) [ln]" .
    }
  qed
  have H: "py_float pw0 = Inr w0 \<and> py_float pw1 = Inr w1 \<and>
    py_float pc0 = Inr c0 \<and> py_float pc1 = Inr c1 \<longrightarrow>
      (resolves_to s dev device \<and> find_line device (diskstats s) = Some pl \<and>
       interim s (''proc_diskstats_'' @ replace_slash device) = Some (dtime, dold) \<and>
       find_line device dold = Some il \<and> 8 \<le> length pl \<and> 8 \<le> length il \<and>
       clock s \<noteq> dtime \<longrightarrow>
         (\<exists>ln. fst (check_diskio s dev (Some [pw0, pw1]) (Some [pc0, pc1])) =
            Exit (max (severity (of_int (pl ! 2 - il ! 2) / (clock s - dtime)) w0 c0)
                      (severity (of_int (pl ! 6 - il ! 6) / (clock s - dtime)) w1 c1)) [ln])) \<and>
      (interim s (''proc_net_dev_'' @ interface) = Some (ntime, nold) \<and>
       net_deltas (find_line interface (net_dev s)) (find_line interface nold) = Inr (Some int_d) \<and>
       clock s \<noteq> ntime \<and>
       (\<forall>x \<in> set hard_errors. \<forall>v. int_d x = Some v \<longrightarrow> v \<le> 0) \<and>
       int_d ''r_bytes'' = Some rb \<and> int_d ''t_bytes'' = Some tb \<longrightarrow>
         (\<exists>ln. fst (check_net s interface (Some [pw0, pw1]) (Some [pc0, pc1])) =
            Exit (max (severity (of_int rb / 1024 / 1024 / (clock s - ntime)) w0 c0)
                      (severity (of_int tb / 1024 / 1024 / (clock s - ntime)) w1 c1)) [ln]))"
  proof (intro impI conjI; elim conjE)
    assume h: "py_float pw0 = Inr w0" "py_float pw1 = Inr w1"
      "py_float pc0 = Inr c0" "py_float pc1 = Inr c1"
    {
      assume "resolves_to s dev device" "find_line device (diskstats s) = Some pl"
       "interim s (''proc_diskstats_'' @ replace_slash device) = Some (dtime, dold)"
       "find_line device dold = Some il" "8 \<le> length pl" "8 \<le> length il" "clock s \<noteq> dtime"
      from check_diskio_severity [OF h this]
      show "\<exists>ln. fst (check_diskio s dev (Some [pw0, pw1]) (Some [pc0, pc1])) =
            Exit (max (severity (of_int (pl ! 2 - il ! 2) / (clock s - dtime)) w0 c0)
                      (severity (of_int (pl ! 6 - il ! 6) / (clock s - dtime)) w1 c1)) [ln]" .
    }
    {
      assume "interim s (''proc_net_dev_'' @ interface) = Some (ntime, nold)"
       "net_deltas (find_line interface (net_dev s)) (find_line interface nold) = Inr (Some int_d)"
       "clock s \<noteq> ntime"
       "\<forall>x \<in> set hard_errors. \<forall>v. int_d x = Some v \<longrightarrow> v \<le> 0"
       "int_d ''r_bytes'' = Some rb" "int_d ''t_bytes'' = Some tb"
      from check_net_severity [OF h this]
      show "\<exists>ln. fst (check_net s interface (Some [pw0, pw1]) (Some [pc0, pc1])) =
            Exit (max (severity (of_int rb / 1024 / 1024 / (clock s - ntime)) w0 c0)
                      (severity (of_int tb / 1024 / 1024 / (clock s - ntime)) w1 c1)) [ln]" .
    }
  qed
  from A B C D E F G H show ?thesis by (intro conjI)
qed

end
